theory Spec2Isabelle
  imports Main "HOL-Library.Sublist" "HOL-Library.Multiset"
begin


section \<open>Identity model (lib/source_version.go)\<close>

text \<open>
  Go strings are byte sequences, so a Go \<^verbatim>\<open>string\<close> is a \<^typ>\<open>string\<close> (a list of 8-bit
  characters). \<^verbatim>\<open>RepoURL\<close> and \<^verbatim>\<open>RepoOffset\<close> are named string types.
\<close>

type_synonym RepoURL = string
type_synonym RepoOffset = string

text \<open>
  Modelled from the spec: \<^verbatim>\<open>semv.Version\<close> belongs to the imported package
  \<^verbatim>\<open>github.com/samsalisbury/semv\<close>, which is not part of the sources. The spec describes
  it as a semantic version with numeric components, pre-release identifiers and build metadata
  holding a revision id; the code reads and writes the field \<^verbatim>\<open>Meta\<close>. The package's
  functions (\<^verbatim>\<open>Parse\<close>, \<^verbatim>\<open>String\<close>, \<^verbatim>\<open>Format\<close>) are parameters of the
  definitions that call them.
\<close>

record Version =
  Major :: int
  Minor :: int
  Patch :: int
  Pre :: string
  Meta :: string

text \<open>
  Modelled from the spec: the declaration of \<^verbatim>\<open>SourceLocation\<close> is not part of the
  sources; the spec gives it as \<^verbatim>\<open>{RepoURL, RepoOffset}\<close> and the code uses exactly these
  two fields. \<^verbatim>\<open>SourceVersion\<close> has the same two fields and a \<^verbatim>\<open>Version\<close>, so it is
  the record extended by that field.
\<close>

record SourceLocation =
  RepoURL :: RepoURL
  RepoOffset :: RepoOffset

record SourceVersion = SourceLocation +
  Version :: Version

text \<open>The zero values of the Go structs (what a named result holds before it is assigned).\<close>

definition zeroVersion :: Version where
  "zeroVersion = \<lparr>Major = 0, Minor = 0, Patch = 0, Pre = [], Meta = []\<rparr>"

definition zeroSourceLocation :: SourceLocation where
  "zeroSourceLocation = \<lparr>RepoURL = [], RepoOffset = []\<rparr>"

definition zeroSourceVersion :: SourceVersion where
  "zeroSourceVersion = \<lparr>RepoURL = [], RepoOffset = [], Version = zeroVersion\<rparr>"

text \<open>
  Go's \<^verbatim>\<open>error\<close> values that this program creates or inspects. \<^verbatim>\<open>fmt.Errorf\<close> values are
  kept as one constructor per format string with the formatted arguments; \<open>External\<close> stands
  for an error made by an imported package (the text identifies it).
\<close>

datatype error =
    MissingRepo string
  | MissingVersion string string
  | MissingPath string string
  | IncludesVersion string
  | NotModifiedErr
  | NoImageNameFound SourceVersion
  | NoSourceVersionFound string
  | ErrNoRows
  | Errorf_for error string
  | Errorf_no_repos_found SourceLocation
  | Errorf_missing_labels "string list"
  | External string

text \<open>
  A Go call either returns or panics (an index out of range is a run-time panic, not an
  \<^verbatim>\<open>error\<close> value).
\<close>

datatype 'a outcome = Panicked | Returned 'a

text \<open>\<^verbatim>\<open>SourceLocation.String\<close>: \<^verbatim>\<open>"%s"\<close> or \<^verbatim>\<open>"%s:%s"\<close>.\<close>

definition SourceLocation_String :: "SourceLocation \<Rightarrow> string" where
  "SourceLocation_String sl =
     (if RepoOffset sl = [] then RepoURL sl
      else RepoURL sl @ '':'' @ RepoOffset sl)"

text \<open>
  \<^verbatim>\<open>SourceVersion.String\<close>: \<^verbatim>\<open>"%s %s"\<close> or \<^verbatim>\<open>"%s:%s %s"\<close>; \<open>vString\<close> is
  \<^verbatim>\<open>semv.Version.String\<close>, which \<^verbatim>\<open>%s\<close> calls.
\<close>

definition SourceVersion_String :: "(Version \<Rightarrow> string) \<Rightarrow> SourceVersion \<Rightarrow> string" where
  "SourceVersion_String vString sv =
     (if RepoOffset sv = [] then RepoURL sv @ '' '' @ vString (Version sv)
      else RepoURL sv @ '':'' @ RepoOffset sv @ '' '' @ vString (Version sv))"

definition SourceVersion_CanonicalName :: "SourceVersion \<Rightarrow> SourceLocation" where
  "SourceVersion_CanonicalName sv = \<lparr>RepoURL = RepoURL sv, RepoOffset = RepoOffset sv\<rparr>"

definition DefaultDelim :: string where
  "DefaultDelim = '',''"

text \<open>
  \<^verbatim>\<open>strings.Split(s, sep)\<close> for a non-empty separator: the pieces of \<open>s\<close> between the
  non-overlapping occurrences of \<open>sep\<close>, found from the left; always at least one piece.
  \<open>cur\<close> holds the bytes of the current piece, reversed. (With an empty separator Go cuts
  after every UTF-8 sequence; this program never passes one, and the model then returns
  the whole string.)
\<close>

function splitFrom :: "string \<Rightarrow> string \<Rightarrow> string \<Rightarrow> string list" where
  "splitFrom sep cur s =
     (if sep = [] then [rev cur @ s]
      else if prefix sep s then rev cur # splitFrom sep [] (drop (length sep) s)
      else (case s of [] \<Rightarrow> [rev cur] | c # cs \<Rightarrow> splitFrom sep (c # cur) cs))"
  by pat_completeness auto
termination
  by (relation "measure (\<lambda>(sep, cur, s). length s)") (auto simp: prefix_def)

declare splitFrom.simps [simp del]

definition strings_Split :: "string \<Rightarrow> string \<Rightarrow> string list" where
  "strings_Split s sep = splitFrom sep [] s"

text \<open>The byte tests \<^verbatim>\<open>'A' <= b && b <= 'Z'\<close> and \<^verbatim>\<open>'a' <= b && b <= 'z'\<close>.\<close>

definition isUpperAZ :: "char \<Rightarrow> bool" where
  "isUpperAZ b \<longleftrightarrow> (65::nat) \<le> of_char b \<and> of_char b \<le> (90::nat)"

definition isLowerAZ :: "char \<Rightarrow> bool" where
  "isLowerAZ b \<longleftrightarrow> (97::nat) \<le> of_char b \<and> of_char b \<le> (122::nat)"

text \<open>
  \<^verbatim>\<open>parseChunks\<close>. \<open>nfc\<close> is \<^verbatim>\<open>norm.NFC.String\<close> (Unicode normalisation, from an
  imported package). \<^verbatim>\<open>source[0]\<close> panics when the normalised string is empty.
\<close>

definition parseChunks :: "(string \<Rightarrow> string) \<Rightarrow> string \<Rightarrow> string list outcome" where
  "parseChunks nfc sourceStr =
     (let source = nfc sourceStr in
      case source of
        [] \<Rightarrow> Panicked
      | b # rest \<Rightarrow>
          if \<not> isUpperAZ b \<and> \<not> isLowerAZ b
          then Returned (strings_Split rest [b])
          else Returned (strings_Split source DefaultDelim))"

text \<open>
  \<^verbatim>\<open>sourceVersionFromChunks\<close>, with named results \<^verbatim>\<open>(sv, err)\<close>: the pair returned holds
  whatever \<^verbatim>\<open>sv\<close> was assigned so far. \<open>semvParse\<close> is \<^verbatim>\<open>semv.Parse\<close>, returning its
  \<^verbatim>\<open>(Version, error)\<close> pair. \<^verbatim>\<open>chunks[0]\<close> and \<^verbatim>\<open>chunks[1]\<close> panic when out of range.
\<close>

definition sourceVersionFromChunks ::
  "(string \<Rightarrow> Version \<times> error option) \<Rightarrow> string \<Rightarrow> string list
     \<Rightarrow> (SourceVersion \<times> error option) outcome" where
  "sourceVersionFromChunks semvParse source chunks =
     (case chunks of
        [] \<Rightarrow> Panicked
      | c0 # cs \<Rightarrow>
          if length c0 = 0 then Returned (zeroSourceVersion, Some (MissingRepo source))
          else (case cs of
                  [] \<Rightarrow> Panicked
                | c1 # cs' \<Rightarrow>
                    (case semvParse c1 of
                       (v, Some e) \<Rightarrow>
                         Returned (zeroSourceVersion\<lparr>RepoURL := c0, Version := v\<rparr>, Some e)
                     | (v, None) \<Rightarrow>
                         if length chunks < 3
                         then Returned (zeroSourceVersion
                                \<lparr>RepoURL := c0, Version := v, RepoOffset := []\<rparr>, None)
                         else Returned (zeroSourceVersion
                                \<lparr>RepoURL := c0, Version := v, RepoOffset := chunks ! 2\<rparr>, None))))"

text \<open>\<^verbatim>\<open>canonicalNameFromChunks\<close>, with named results \<^verbatim>\<open>(sl, err)\<close>.\<close>

definition canonicalNameFromChunks ::
  "string \<Rightarrow> string list \<Rightarrow> (SourceLocation \<times> error option) outcome" where
  "canonicalNameFromChunks source chunks =
     (if length chunks > 2 then Returned (zeroSourceLocation, Some (IncludesVersion source))
      else (case chunks of
              [] \<Rightarrow> Panicked
            | c0 # cs \<Rightarrow>
                if length c0 = 0 then Returned (zeroSourceLocation, Some (MissingRepo source))
                else if length chunks < 2
                then Returned (zeroSourceLocation\<lparr>RepoURL := c0, RepoOffset := []\<rparr>, None)
                else Returned (zeroSourceLocation\<lparr>RepoURL := c0, RepoOffset := chunks ! 1\<rparr>, None)))"

definition ParseSourceVersion ::
  "(string \<Rightarrow> string) \<Rightarrow> (string \<Rightarrow> Version \<times> error option) \<Rightarrow> string
     \<Rightarrow> (SourceVersion \<times> error option) outcome" where
  "ParseSourceVersion nfc semvParse source =
     (case parseChunks nfc source of
        Panicked \<Rightarrow> Panicked
      | Returned chunks \<Rightarrow> sourceVersionFromChunks semvParse source chunks)"

definition ParseCanonicalName ::
  "(string \<Rightarrow> string) \<Rightarrow> string \<Rightarrow> (SourceLocation \<times> error option) outcome" where
  "ParseCanonicalName nfc source =
     (case parseChunks nfc source of
        Panicked \<Rightarrow> Panicked
      | Returned chunks \<Rightarrow> canonicalNameFromChunks source chunks)"

section \<open>Rectifier\<close>

text \<open>
  Modelled from the spec: the declarations of \<^verbatim>\<open>Deployment\<close>, \<^verbatim>\<open>DeployConfig\<close> and
  \<^verbatim>\<open>DeploymentPair\<close> are not part of the sources. The fields are the ones the code reads
  (\<^verbatim>\<open>d.Cluster\<close>, \<^verbatim>\<open>d.RequestID\<close>, \<^verbatim>\<open>d.NumInstances\<close>, \<^verbatim>\<open>d.Resources\<close>,
  \<^verbatim>\<open>d.Env\<close>, \<^verbatim>\<open>d.DeployConfig.Volumes\<close>, \<^verbatim>\<open>d.SourceVersion\<close>, \<^verbatim>\<open>pair.prior\<close>,
  \<^verbatim>\<open>pair.post\<close>), which are also the ones the spec's data model lists. The types
  \<^verbatim>\<open>Resources\<close>, \<^verbatim>\<open>Env\<close> and \<^verbatim>\<open>Volumes\<close> are type parameters.
\<close>

record 'vol DeployConfig =
  Volumes :: 'vol

record ('res, 'env, 'vol) Deployment =
  Cluster :: string
  RequestID :: string
  NumInstances :: int
  Resources :: 'res
  Env :: 'env
  DeployConfig :: "'vol DeployConfig"
  SourceVersion :: SourceVersion

record ('res, 'env, 'vol) DeploymentPair =
  prior :: "('res, 'env, 'vol) Deployment"
  post :: "('res, 'env, 'vol) Deployment"

text \<open>The three error structs that implement \<^verbatim>\<open>RectificationError\<close>.\<close>

datatype ('res, 'env, 'vol) RectificationError =
    CreateError "('res, 'env, 'vol) Deployment" error
  | DeleteError "('res, 'env, 'vol) Deployment" error
  | ChangeError "('res, 'env, 'vol) DeploymentPair" error

fun ExistingDeployment ::
  "('res, 'env, 'vol) RectificationError \<Rightarrow> ('res, 'env, 'vol) Deployment option" where
  "ExistingDeployment (CreateError d e) = None"
| "ExistingDeployment (DeleteError d e) = Some d"
| "ExistingDeployment (ChangeError p e) = Some (prior p)"


text \<open>
  The \<^verbatim>\<open>RectificationClient\<close> interface. An implementation talks to a scheduler, so every
  method takes the state \<open>'w\<close> of the outside world and returns the state after the call;
  nothing is assumed about how a method answers. (\<^verbatim>\<open>ImageLabels\<close> is never called by the
  rectifier and is left out.)
\<close>

record ('w, 'res, 'env, 'vol) RectificationClient =
  Deploy :: "'w \<Rightarrow> string \<Rightarrow> string \<Rightarrow> string \<Rightarrow> string \<Rightarrow> 'res \<Rightarrow> 'env \<Rightarrow> 'vol
               \<Rightarrow> error option \<times> 'w"
  PostRequest :: "'w \<Rightarrow> string \<Rightarrow> string \<Rightarrow> int \<Rightarrow> error option \<times> 'w"
  Scale :: "'w \<Rightarrow> string \<Rightarrow> string \<Rightarrow> int \<Rightarrow> string \<Rightarrow> error option \<times> 'w"
  DeleteRequest :: "'w \<Rightarrow> string \<Rightarrow> string \<Rightarrow> string \<Rightarrow> error option \<times> 'w"
  ImageName :: "'w \<Rightarrow> ('res, 'env, 'vol) Deployment \<Rightarrow> (string \<times> error option) \<times> 'w"

text \<open>
  The calls a worker makes on the client, each with its arguments and the error it
  returned. The list of calls is not in the Go code: it is the record the properties
  about "how many calls" are stated on.
\<close>

datatype ('res, 'env, 'vol) call =
    DeployCall string string string string 'res 'env 'vol "error option"
  | PostRequestCall string string int "error option"
  | ScaleCall string string int string "error option"
  | DeleteRequestCall string string string "error option"
  | ImageNameCall "('res, 'env, 'vol) Deployment" "error option"

fun isDeployCall :: "('res, 'env, 'vol) call \<Rightarrow> bool" where
  "isDeployCall (DeployCall c dep req img r e v res) = True"
| "isDeployCall other = False"

fun isImageNameCall :: "('res, 'env, 'vol) call \<Rightarrow> bool" where
  "isImageNameCall (ImageNameCall d res) = True"
| "isImageNameCall other = False"

text \<open>
  \<^verbatim>\<open>regexp.MustCompile(`[-/:]`).ReplaceAllString(in, repl)\<close>: the pattern is one
  character class, so a match is one byte of the class; \<open>replaceClass\<close> walks the string
  and puts \<open>repl\<close> in place of each such byte. (The three bytes are ASCII, so they never
  occur inside a multi-byte UTF-8 sequence.)
\<close>

definition notInIDRE :: "char list" where
  "notInIDRE = [CHR ''-'', CHR ''/'', CHR '':'']"

fun replaceClass :: "char list \<Rightarrow> string \<Rightarrow> string \<Rightarrow> string" where
  "replaceClass cls [] repl = []"
| "replaceClass cls (c # cs) repl =
     (if c \<in> set cls then repl @ replaceClass cls cs repl
      else c # replaceClass cls cs repl)"

definition idify :: "string \<Rightarrow> string" where
  "idify inp = replaceClass notInIDRE inp []"

definition computeRequestID :: "('res, 'env, 'vol) Deployment \<Rightarrow> string" where
  "computeRequestID d =
     (if length (RequestID d) > 0 then RequestID d
      else idify (SourceLocation_String (SourceVersion_CanonicalName (SourceVersion d))))"

text \<open>
  \<^verbatim>\<open>newDepID\<close>: \<open>uuid\<close> is \<^verbatim>\<open>uuid.NewV4().String()\<close>, a random value drawn from the
  outside world.
\<close>

definition newDepID :: "('w \<Rightarrow> string \<times> 'w) \<Rightarrow> 'w \<Rightarrow> string \<times> 'w" where
  "newDepID uuid w = (case uuid w of (u, w') \<Rightarrow> (idify u, w'))"

text \<open>
  Modelled from the spec: \<^verbatim>\<open>semv.Version.Equals\<close>, \<^verbatim>\<open>Resources.Equal\<close> and
  \<^verbatim>\<open>Env.Equal\<close> are not part of the sources. The spec: versions are compared by semantic
  value (numeric components and pre-release identifiers, ignoring build metadata);
  resources and environments by value equality.
\<close>

definition Version_Equals :: "Version \<Rightarrow> Version \<Rightarrow> bool" where
  "Version_Equals v u \<longleftrightarrow>
     Major v = Major u \<and> Minor v = Minor u \<and> Patch v = Patch u \<and> Pre v = Pre u"

definition SourceVersion_Equal :: "SourceVersion \<Rightarrow> SourceVersion \<Rightarrow> bool" where
  "SourceVersion_Equal sv o' \<longleftrightarrow>
     RepoURL sv = RepoURL o' \<and> RepoOffset sv = RepoOffset o'
     \<and> Version_Equals (Version sv) (Version o')"

definition changesReq :: "('res, 'env, 'vol) DeploymentPair \<Rightarrow> bool" where
  "changesReq pair \<longleftrightarrow> NumInstances (prior pair) \<noteq> NumInstances (post pair)"

definition changesDep :: "('res, 'env, 'vol) DeploymentPair \<Rightarrow> bool" where
  "changesDep pair \<longleftrightarrow>
     \<not> (SourceVersion_Equal (SourceVersion (prior pair)) (SourceVersion (post pair))
        \<and> Resources (prior pair) = Resources (post pair)
        \<and> Env (prior pair) = Env (post pair))"

text \<open>
  One iteration of the loop of \<^verbatim>\<open>rectifyCreates\<close>, for the deployment \<open>d\<close> received
  from the channel. The result is the world after the calls, the calls made, and the
  errors sent on \<^verbatim>\<open>errs\<close> (none or one); every \<^verbatim>\<open>continue\<close> ends the iteration.
\<close>

definition rectifyCreate ::
  "('w, 'res, 'env, 'vol) RectificationClient \<Rightarrow> ('w \<Rightarrow> string \<times> 'w) \<Rightarrow> 'w
     \<Rightarrow> ('res, 'env, 'vol) Deployment
     \<Rightarrow> 'w \<times> ('res, 'env, 'vol) call list \<times> ('res, 'env, 'vol) RectificationError list" where
  "rectifyCreate sing uuid w d =
     (case ImageName sing w d of
        ((name, Some err), w1) \<Rightarrow> (w1, [ImageNameCall d (Some err)], [CreateError d err])
      | ((name, None), w1) \<Rightarrow>
          (let reqID = computeRequestID d in
           case PostRequest sing w1 (Cluster d) reqID (NumInstances d) of
             (Some err, w2) \<Rightarrow>
               (w2, [ImageNameCall d None,
                     PostRequestCall (Cluster d) reqID (NumInstances d) (Some err)],
                [CreateError d err])
           | (None, w2) \<Rightarrow>
               (case newDepID uuid w2 of
                  (depID, w3) \<Rightarrow>
                    (case Deploy sing w3 (Cluster d) depID reqID name (Resources d) (Env d)
                            (Volumes (DeployConfig d)) of
                       (res, w4) \<Rightarrow>
                         (w4, [ImageNameCall d None,
                               PostRequestCall (Cluster d) reqID (NumInstances d) None,
                               DeployCall (Cluster d) depID reqID name (Resources d) (Env d)
                                 (Volumes (DeployConfig d)) res],
                          (case res of Some err \<Rightarrow> [CreateError d err] | None \<Rightarrow> []))))))"


definition rectifyDelete ::
  "('w, 'res, 'env, 'vol) RectificationClient \<Rightarrow> 'w \<Rightarrow> ('res, 'env, 'vol) Deployment
     \<Rightarrow> 'w \<times> ('res, 'env, 'vol) call list \<times> ('res, 'env, 'vol) RectificationError list" where
  "rectifyDelete sing w d =
     (case DeleteRequest sing w (Cluster d) (computeRequestID d)
             ''deleting request for removed manifest'' of
        (res, w1) \<Rightarrow>
          (w1, [DeleteRequestCall (Cluster d) (computeRequestID d)
                  ''deleting request for removed manifest'' res],
           (case res of Some err \<Rightarrow> [DeleteError d err] | None \<Rightarrow> [])))"

fun rectifyDeletes ::
  "('w, 'res, 'env, 'vol) RectificationClient \<Rightarrow> 'w \<Rightarrow> ('res, 'env, 'vol) Deployment list
     \<Rightarrow> 'w \<times> ('res, 'env, 'vol) call list \<times> ('res, 'env, 'vol) RectificationError list" where
  "rectifyDeletes sing w [] = (w, [], [])"
| "rectifyDeletes sing w (d # dc) =
     (case rectifyDelete sing w d of
        (w1, calls1, errs1) \<Rightarrow>
          (case rectifyDeletes sing w1 dc of
             (w2, calls2, errs2) \<Rightarrow> (w2, calls1 @ calls2, errs1 @ errs2)))"

text \<open>
  The deploy half of one iteration of \<^verbatim>\<open>rectifyModifys\<close> (the block under
  \<^verbatim>\<open>if changesDep(pair)\<close>).
\<close>

definition rectifyModifyDeploy ::
  "('w, 'res, 'env, 'vol) RectificationClient \<Rightarrow> ('w \<Rightarrow> string \<times> 'w) \<Rightarrow> 'w
     \<Rightarrow> ('res, 'env, 'vol) DeploymentPair
     \<Rightarrow> 'w \<times> ('res, 'env, 'vol) call list \<times> ('res, 'env, 'vol) RectificationError list" where
  "rectifyModifyDeploy sing uuid w pair =
     (if changesDep pair then
        (case ImageName sing w (post pair) of
           ((name, Some err), w1) \<Rightarrow>
             (w1, [ImageNameCall (post pair) (Some err)], [ChangeError pair err])
         | ((name, None), w1) \<Rightarrow>
             (case newDepID uuid w1 of
                (depID, w2) \<Rightarrow>
                  (case Deploy sing w2 (Cluster (post pair)) depID (computeRequestID (prior pair))
                          name (Resources (post pair)) (Env (post pair))
                          (Volumes (DeployConfig (post pair))) of
                     (res, w3) \<Rightarrow>
                       (w3, [ImageNameCall (post pair) None,
                             DeployCall (Cluster (post pair)) depID
                               (computeRequestID (prior pair)) name (Resources (post pair))
                               (Env (post pair)) (Volumes (DeployConfig (post pair))) res],
                        (case res of Some err \<Rightarrow> [ChangeError pair err] | None \<Rightarrow> [])))))
      else (w, [], []))"

text \<open>One iteration of the loop of \<^verbatim>\<open>rectifyModifys\<close>, for the pair received.\<close>

definition rectifyModify ::
  "('w, 'res, 'env, 'vol) RectificationClient \<Rightarrow> ('w \<Rightarrow> string \<times> 'w) \<Rightarrow> 'w
     \<Rightarrow> ('res, 'env, 'vol) DeploymentPair
     \<Rightarrow> 'w \<times> ('res, 'env, 'vol) call list \<times> ('res, 'env, 'vol) RectificationError list" where
  "rectifyModify sing uuid w pair =
     (if changesReq pair then
        (case Scale sing w (Cluster (post pair)) (computeRequestID (post pair))
                (NumInstances (post pair)) ''rectified scaling'' of
           (Some err, w1) \<Rightarrow>
             (w1, [ScaleCall (Cluster (post pair)) (computeRequestID (post pair))
                     (NumInstances (post pair)) ''rectified scaling'' (Some err)],
              [ChangeError pair err])
         | (None, w1) \<Rightarrow>
             (case rectifyModifyDeploy sing uuid w1 pair of
                (w2, calls, errs) \<Rightarrow>
                  (w2, ScaleCall (Cluster (post pair)) (computeRequestID (post pair))
                         (NumInstances (post pair)) ''rectified scaling'' None # calls,
                   errs)))
      else rectifyModifyDeploy sing uuid w pair)"

fun rectifyModifys ::
  "('w, 'res, 'env, 'vol) RectificationClient \<Rightarrow> ('w \<Rightarrow> string \<times> 'w) \<Rightarrow> 'w
     \<Rightarrow> ('res, 'env, 'vol) DeploymentPair list
     \<Rightarrow> 'w \<times> ('res, 'env, 'vol) call list \<times> ('res, 'env, 'vol) RectificationError list" where
  "rectifyModifys sing uuid w [] = (w, [], [])"
| "rectifyModifys sing uuid w (pair # mc) =
     (case rectifyModify sing uuid w pair of
        (w1, calls1, errs1) \<Rightarrow>
          (case rectifyModifys sing uuid w1 mc of
             (w2, calls2, errs2) \<Rightarrow> (w2, calls1 @ calls2, errs1 @ errs2)))"





subsection \<open>\<^verbatim>\<open>Rectify\<close>: the goroutines and the error channel\<close>

text \<open>
  Modelled from the spec: the declaration of \<^verbatim>\<open>DiffChans\<close> is not part of the sources;
  the code reads \<^verbatim>\<open>dcs.Created\<close>, \<^verbatim>\<open>dcs.Deleted\<close> and \<^verbatim>\<open>dcs.Modified\<close>, the spec's
  "three independent channels of work". An input channel is the list of the values it
  still delivers before its producer closes it (the channels are finite); a receive from
  it takes the head, and \<^verbatim>\<open>range\<close> ends when the list is empty.
\<close>

record ('res, 'env, 'vol) DiffChans =
  Created :: "('res, 'env, 'vol) Deployment list"
  Deleted :: "('res, 'env, 'vol) Deployment list"
  Modified :: "('res, 'env, 'vol) DeploymentPair list"

text \<open>
  \<^verbatim>\<open>Rectify\<close> starts four goroutines and returns \<^verbatim>\<open>errs\<close>; whoever called it receives
  from \<^verbatim>\<open>errs\<close>. The three workers are named by what they run. A worker is in its loop
  (\<open>Running\<close>, with the errors of the current iteration that it still has to send: none
  when it is at the head of the loop), has returned from its loop and is about to call
  \<^verbatim>\<open>wg.Done()\<close> (\<open>Exited\<close>), or is over (\<open>Finished\<close>).
\<close>

datatype worker = CreateWorker | DeleteWorker | ModifyWorker

datatype 'e phase = Running "'e list" | Exited | Finished

datatype actor = Worker worker | Closer | Consumer

text \<open>
  The state of the whole: the input channels, the three workers, the counter of the
  \<^verbatim>\<open>WaitGroup\<close>, the fourth goroutine (still in \<^verbatim>\<open>wg.Wait()\<close> or not) with the number
  of times \<^verbatim>\<open>close(errs)\<close> has run, what the consumer has received and whether it has
  seen the end of the stream, the outside world of the scheduler client with the calls
  made on it, and whether the program has panicked. \<open>emitted\<close> lists the errors that the
  iterations have produced for sending, in the order produced.
\<close>

record ('w, 'res, 'env, 'vol) system =
  dcs :: "('res, 'env, 'vol) DiffChans"
  phase :: "worker \<Rightarrow> ('res, 'env, 'vol) RectificationError phase"
  wg :: nat
  closerWaiting :: bool
  closes :: nat
  received :: "('res, 'env, 'vol) RectificationError list"
  eos :: bool
  world :: 'w
  schedulerCalls :: "('res, 'env, 'vol) call list"
  emitted :: "('res, 'env, 'vol) RectificationError list"
  panicked :: bool


text \<open>
  What a worker's \<^verbatim>\<open>range\<close> receives next: nothing when its channel is drained and
  closed, else the loop body for the value received (as a function of the world) and the
  channels without that value.
\<close>

definition nextItem ::
  "('w, 'res, 'env, 'vol) RectificationClient \<Rightarrow> ('w \<Rightarrow> string \<times> 'w) \<Rightarrow> worker
     \<Rightarrow> ('res, 'env, 'vol) DiffChans
     \<Rightarrow> (('w \<Rightarrow> 'w \<times> ('res, 'env, 'vol) call list
                   \<times> ('res, 'env, 'vol) RectificationError list)
          \<times> ('res, 'env, 'vol) DiffChans) option" where
  "nextItem sing uuid k chans =
     (case k of
        CreateWorker \<Rightarrow>
          (case Created chans of
             [] \<Rightarrow> None
           | d # ds \<Rightarrow> Some ((\<lambda>w. rectifyCreate sing uuid w d), chans\<lparr>Created := ds\<rparr>))
      | DeleteWorker \<Rightarrow>
          (case Deleted chans of
             [] \<Rightarrow> None
           | d # ds \<Rightarrow> Some ((\<lambda>w. rectifyDelete sing w d), chans\<lparr>Deleted := ds\<rparr>))
      | ModifyWorker \<Rightarrow>
          (case Modified chans of
             [] \<Rightarrow> None
           | p # ps \<Rightarrow> Some ((\<lambda>w. rectifyModify sing uuid w p), chans\<lparr>Modified := ps\<rparr>)))"

text \<open>
  One step of one goroutine, \<open>None\<close> when it cannot move (it is blocked or over).
  \<^item> A worker at the head of its loop receives the next value and runs the loop body up to
    its send (the calls of one iteration are taken as one step), or leaves the loop when
    its channel is drained.
  \<^item> A worker with an error to send: \<^verbatim>\<open>errs\<close> is unbuffered, so the send happens together
    with the consumer's receive; it blocks when the consumer has stopped receiving, and a
    send on a closed channel panics.
  \<^item> A worker that left its loop calls \<^verbatim>\<open>wg.Done()\<close>, which panics on a counter of zero.
  \<^item> The closer passes \<^verbatim>\<open>wg.Wait()\<close> when the counter is zero and closes \<^verbatim>\<open>errs\<close>.
  \<^item> The consumer, blocked in its receive, sees the end of the stream once \<^verbatim>\<open>errs\<close> is
    closed.
  After a panic nothing moves.
\<close>

definition step ::
  "('w, 'res, 'env, 'vol) RectificationClient \<Rightarrow> ('w \<Rightarrow> string \<times> 'w) \<Rightarrow> actor
     \<Rightarrow> ('w, 'res, 'env, 'vol) system \<Rightarrow> ('w, 'res, 'env, 'vol) system option" where
  "step sing uuid a s =
     (if panicked s then None
      else case a of
        Worker k \<Rightarrow>
          (case phase s k of
             Running [] \<Rightarrow>
               (case nextItem sing uuid k (dcs s) of
                  None \<Rightarrow> Some (s\<lparr>phase := (phase s)(k := Exited)\<rparr>)
                | Some (body, chans) \<Rightarrow>
                    (case body (world s) of
                       (w, cs, es) \<Rightarrow>
                         Some (s\<lparr>dcs := chans, world := w,
                                 schedulerCalls := schedulerCalls s @ cs,
                                 emitted := emitted s @ es,
                                 phase := (phase s)(k := Running es)\<rparr>)))
           | Running (e # es) \<Rightarrow>
               (if closes s > 0 then Some (s\<lparr>panicked := True\<rparr>)
                else if eos s then None
                else Some (s\<lparr>received := received s @ [e],
                             phase := (phase s)(k := Running es)\<rparr>))
           | Exited \<Rightarrow>
               (if wg s = 0 then Some (s\<lparr>panicked := True\<rparr>)
                else Some (s\<lparr>wg := wg s - 1, phase := (phase s)(k := Finished)\<rparr>))
           | Finished \<Rightarrow> None)
      | Closer \<Rightarrow>
          (if closerWaiting s \<and> wg s = 0
           then Some (s\<lparr>closes := Suc (closes s), closerWaiting := False\<rparr>)
           else None)
      | Consumer \<Rightarrow>
          (if closes s > 0 \<and> \<not> eos s then Some (s\<lparr>eos := True\<rparr>) else None))"









section \<open>Name cache\<close>

subsection \<open>The relational store\<close>

text \<open>
  The five tables that \<^verbatim>\<open>getDatabase\<close> creates, one record per row with the columns
  of the \<^verbatim>\<open>create table\<close> statements, each table a list of rows. The four tables with
  an \<^verbatim>\<open>integer primary key autoincrement\<close> have a sequence that holds the largest id
  given out so far (SQLite's \<^verbatim>\<open>sqlite_sequence\<close>); an insert takes the next value.
\<close>

record repo_name_row =
  rn_repo_name_id :: nat
  rn_name :: string

record location_row =
  loc_location_id :: nat
  loc_repo :: string
  loc_offset :: string

record through_row =
  rtl_repo_name_id :: nat
  rtl_location_id :: nat

record metadata_row =
  md_metadata_id :: nat
  md_location_id :: nat
  md_etag :: string
  md_canonicalName :: string
  md_version :: string

record name_row =
  nm_name_id :: nat
  nm_metadata_id :: nat
  nm_name :: string

text \<open>
  \<open>faults\<close> is not a table: it scripts the answers of the database driver. Every
  statement the program sends (\<^verbatim>\<open>Exec\<close>, \<^verbatim>\<open>Query\<close>, \<^verbatim>\<open>QueryRow\<close>, \<^verbatim>\<open>Prepare\<close>)
  takes the head of the list: \<open>Some e\<close> makes the statement fail with \<open>e\<close> and change
  nothing, \<open>None\<close> lets it run. The empty list is a connection on which every statement
  runs.
\<close>

record database =
  docker_repo_name :: "repo_name_row list"
  docker_search_location :: "location_row list"
  repo_through_location :: "through_row list"
  docker_search_metadata :: "metadata_row list"
  docker_search_name :: "name_row list"
  seq_repo_name :: nat
  seq_location :: nat
  seq_metadata :: nat
  seq_name :: nat
  faults :: "error option list"

definition newDatabase :: database where
  "newDatabase =
     \<lparr>docker_repo_name = [], docker_search_location = [], repo_through_location = [],
      docker_search_metadata = [], docker_search_name = [],
      seq_repo_name = 0, seq_location = 0, seq_metadata = 0, seq_name = 0, faults = []\<rparr>"

definition nextFault :: "database \<Rightarrow> error option \<times> database" where
  "nextFault d =
     (case faults d of
        [] \<Rightarrow> (None, d)
      | f # fs \<Rightarrow> (f, d\<lparr>faults := fs\<rparr>))"

text \<open>
  Deleting rows, with the \<^verbatim>\<open>on delete cascade\<close> of the foreign keys
  (\<^verbatim>\<open>pragma foreign_keys = ON\<close>): a metadata row takes its name rows with it; a location
  row takes its metadata rows and its rows of the join table; a repository name takes its
  rows of the join table.
\<close>

definition deleteMetadata :: "nat list \<Rightarrow> database \<Rightarrow> database" where
  "deleteMetadata ids d =
     d\<lparr>docker_search_metadata :=
         filter (\<lambda>m. md_metadata_id m \<notin> set ids) (docker_search_metadata d),
       docker_search_name :=
         filter (\<lambda>n. nm_metadata_id n \<notin> set ids) (docker_search_name d)\<rparr>"

definition deleteLocations :: "nat list \<Rightarrow> database \<Rightarrow> database" where
  "deleteLocations ids d =
     deleteMetadata
       (map md_metadata_id
          (filter (\<lambda>m. md_location_id m \<in> set ids) (docker_search_metadata d)))
       (d\<lparr>docker_search_location :=
            filter (\<lambda>l. loc_location_id l \<notin> set ids) (docker_search_location d),
          repo_through_location :=
            filter (\<lambda>t. rtl_location_id t \<notin> set ids) (repo_through_location d)\<rparr>)"

definition deleteRepoNames :: "nat list \<Rightarrow> database \<Rightarrow> database" where
  "deleteRepoNames ids d =
     d\<lparr>docker_repo_name :=
         filter (\<lambda>r. rn_repo_name_id r \<notin> set ids) (docker_repo_name d),
       repo_through_location :=
         filter (\<lambda>t. rtl_repo_name_id t \<notin> set ids) (repo_through_location d)\<rparr>"

text \<open>
  The five \<^verbatim>\<open>insert\<close> statements. Every uniqueness constraint is declared
  \<^verbatim>\<open>on conflict replace\<close>: the rows that hold the key already are deleted (with their
  cascades), then the new row is inserted under the next id of the sequence. The result
  is the new row's id (\<^verbatim>\<open>LastInsertId\<close>).
\<close>

definition insertRepoName :: "string \<Rightarrow> database \<Rightarrow> nat \<times> database" where
  "insertRepoName name d =
     (let d1 = deleteRepoNames
                 (map rn_repo_name_id (filter (\<lambda>r. rn_name r = name) (docker_repo_name d))) d;
          i = Suc (seq_repo_name d1)
      in (i, d1\<lparr>docker_repo_name :=
                   docker_repo_name d1 @ [\<lparr>rn_repo_name_id = i, rn_name = name\<rparr>],
                 seq_repo_name := i\<rparr>))"

definition insertLocation :: "string \<Rightarrow> string \<Rightarrow> database \<Rightarrow> nat \<times> database" where
  "insertLocation repo offset d =
     (let d1 = deleteLocations
                 (map loc_location_id
                    (filter (\<lambda>l. loc_repo l = repo \<and> loc_offset l = offset)
                       (docker_search_location d))) d;
          i = Suc (seq_location d1)
      in (i, d1\<lparr>docker_search_location :=
                   docker_search_location d1
                     @ [\<lparr>loc_location_id = i, loc_repo = repo, loc_offset = offset\<rparr>],
                 seq_location := i\<rparr>))"

definition insertThrough :: "nat \<Rightarrow> nat \<Rightarrow> database \<Rightarrow> database" where
  "insertThrough nid lid d =
     d\<lparr>repo_through_location :=
         filter (\<lambda>t. \<not> (rtl_repo_name_id t = nid \<and> rtl_location_id t = lid))
           (repo_through_location d)
           @ [\<lparr>rtl_repo_name_id = nid, rtl_location_id = lid\<rparr>]\<rparr>"

definition insertMetadata ::
  "nat \<Rightarrow> string \<Rightarrow> string \<Rightarrow> string \<Rightarrow> database \<Rightarrow> nat \<times> database" where
  "insertMetadata lid etag canonicalName version d =
     (let d1 = deleteMetadata
                 (map md_metadata_id
                    (filter (\<lambda>m. md_location_id m = lid \<and> md_version m = version)
                       (docker_search_metadata d))) d;
          i = Suc (seq_metadata d1)
      in (i, d1\<lparr>docker_search_metadata :=
                   docker_search_metadata d1
                     @ [\<lparr>md_metadata_id = i, md_location_id = lid, md_etag = etag,
                          md_canonicalName = canonicalName, md_version = version\<rparr>],
                 seq_metadata := i\<rparr>))"

definition insertName :: "nat \<Rightarrow> string \<Rightarrow> database \<Rightarrow> nat \<times> database" where
  "insertName mid name d =
     (let names = filter (\<lambda>n. nm_name n \<noteq> name) (docker_search_name d);
          i = Suc (seq_name d)
      in (i, d\<lparr>docker_search_name :=
                  names @ [\<lparr>nm_name_id = i, nm_metadata_id = mid, nm_name = name\<rparr>],
                seq_name := i\<rparr>))"

text \<open>
  The three \<^verbatim>\<open>select\<close> statements with their natural joins (on \<^verbatim>\<open>metadata_id\<close> and
  \<^verbatim>\<open>location_id\<close>, respectively \<^verbatim>\<open>repo_name_id\<close> and \<^verbatim>\<open>location_id\<close>, the only
  column names the joined tables share). SQL leaves the order of the rows open; the model
  reads the first table of the \<^verbatim>\<open>from\<close> clause in insertion order.
\<close>

definition selectOnName ::
  "database \<Rightarrow> string \<Rightarrow> (string \<times> string \<times> string \<times> string \<times> string) list" where
  "selectOnName d name =
     concat (map (\<lambda>n.
       concat (map (\<lambda>m.
         concat (map (\<lambda>l.
           if nm_name n = name \<and> nm_metadata_id n = md_metadata_id m
              \<and> md_location_id m = loc_location_id l
           then [(md_etag m, loc_repo l, loc_offset l, md_version m, md_canonicalName m)]
           else [])
         (docker_search_location d)))
       (docker_search_metadata d)))
     (docker_search_name d))"

definition selectOnSL :: "database \<Rightarrow> string \<Rightarrow> string \<Rightarrow> string list" where
  "selectOnSL d repo offset =
     concat (map (\<lambda>r.
       concat (map (\<lambda>t.
         concat (map (\<lambda>l.
           if rtl_repo_name_id t = rn_repo_name_id r \<and> rtl_location_id t = loc_location_id l
              \<and> loc_repo l = repo \<and> loc_offset l = offset
           then [rn_name r] else [])
         (docker_search_location d)))
       (repo_through_location d)))
     (docker_repo_name d))"

definition selectOnSV ::
  "database \<Rightarrow> string \<Rightarrow> string \<Rightarrow> string \<Rightarrow> (string \<times> string) list" where
  "selectOnSV d repo offset version =
     concat (map (\<lambda>n.
       concat (map (\<lambda>m.
         concat (map (\<lambda>l.
           if nm_metadata_id n = md_metadata_id m \<and> md_location_id m = loc_location_id l
              \<and> loc_repo l = repo \<and> loc_offset l = offset \<and> md_version m = version
           then [(md_canonicalName m, nm_name n)] else [])
         (docker_search_location d)))
       (docker_search_metadata d)))
     (docker_search_name d))"

definition selectMetadataId :: "database \<Rightarrow> string \<Rightarrow> nat list" where
  "selectMetadataId d canonicalName =
     map md_metadata_id
       (filter (\<lambda>m. md_canonicalName m = canonicalName) (docker_search_metadata d))"

subsection \<open>Imported packages and the registry client\<close>

text \<open>
  What the name cache calls in packages that are not part of the sources, as parameters:
  \<^verbatim>\<open>semv.Parse\<close>, \<^verbatim>\<open>Version.String\<close> and \<^verbatim>\<open>Version.Format(semv.MMPPre)\<close>; the four
  label keys (constants declared elsewhere in the package); and from
  \<^verbatim>\<open>docker/distribution/reference\<close> the functions \<^verbatim>\<open>ParseNamed\<close> and \<^verbatim>\<open>WithTag\<close>
  with the methods \<^verbatim>\<open>Name\<close> and \<^verbatim>\<open>String\<close> of a reference (\<open>'ref\<close>).
\<close>

record 'ref deps =
  semv_Parse :: "string \<Rightarrow> Version \<times> error option"
  Version_String :: "Version \<Rightarrow> string"
  Version_Format_MMPPre :: "Version \<Rightarrow> string"
  DockerRepoLabel :: string
  DockerVersionLabel :: string
  DockerRevisionLabel :: string
  DockerPathLabel :: string
  reference_ParseNamed :: "string \<Rightarrow> 'ref \<times> error option"
  reference_WithTag :: "'ref \<Rightarrow> string \<Rightarrow> 'ref \<times> error option"
  Named_Name :: "'ref \<Rightarrow> string"
  Named_String :: "'ref \<Rightarrow> string"

text \<open>
  Modelled from the spec: the package \<^verbatim>\<open>util/docker_registry\<close> is not part of the
  sources. The spec gives the registry client as
  \<^verbatim>\<open>GetImageMetadata(imageName, etag) -> (metadata{Labels, CanonicalName, AllNames, Etag}, error)\<close>
  and \<^verbatim>\<open>AllTags(repoName) -> ([]string, error)\<close>. The registry is outside the program:
  a method takes the registry's state \<open>'r\<close> and returns the state after the call, and
  nothing is assumed about its answers.
\<close>

record Metadata =
  Labels :: "string \<Rightarrow> string option"
  CanonicalName :: string
  AllNames :: "string list"
  Etag :: string

record 'r RegistryClient =
  GetImageMetadata :: "'r \<Rightarrow> string \<Rightarrow> string \<Rightarrow> (Metadata \<times> error option) \<times> 'r"
  AllTags :: "'r \<Rightarrow> string \<Rightarrow> (string list \<times> error option) \<times> 'r"

text \<open>
  The calls made on the registry client, with their arguments and answers; like the list
  of scheduler calls, this list is what "how many registry calls" is stated on.
\<close>

datatype registryCall =
    GetImageMetadataCall string string "error option"
  | AllTagsCall string "string list" "error option"

text \<open>
  The \<^verbatim>\<open>NameCache\<close> struct: the registry client (its state) and the database, with the
  list of registry calls made so far.
\<close>

record 'r NameCache =
  registryClient :: 'r
  db :: database
  registryCalls :: "registryCall list"

text \<open>The type assertions \<^verbatim>\<open>err.(T)\<close> on the three signal errors.\<close>

fun isNotModifiedErr :: "error \<Rightarrow> bool" where
  "isNotModifiedErr NotModifiedErr = True"
| "isNotModifiedErr other = False"

fun isNoImageNameFound :: "error \<Rightarrow> bool" where
  "isNoImageNameFound (NoImageNameFound sv) = True"
| "isNoImageNameFound other = False"

fun isNoSourceVersionFound :: "error \<Rightarrow> bool" where
  "isNoSourceVersionFound (NoSourceVersionFound n) = True"
| "isNoSourceVersionFound other = False"

subsection \<open>Building a \<^verbatim>\<open>SourceVersion\<close>\<close>

text \<open>
  \<^verbatim>\<open>SourceVersionFromLabels\<close> (lib/source_version.go): every missing key is collected,
  in the order repo, version, revision, path; the parsed version gets the revision as its
  \<^verbatim>\<open>Meta\<close>, and the error of \<^verbatim>\<open>semv.Parse\<close> is returned beside the value.
\<close>

definition SourceVersionFromLabels ::
  "'ref deps \<Rightarrow> (string \<Rightarrow> string option) \<Rightarrow> SourceVersion \<times> error option" where
  "SourceVersionFromLabels deps labels =
     (let missingLabels =
            (if labels (DockerRepoLabel deps) = None then [DockerRepoLabel deps] else [])
          @ (if labels (DockerVersionLabel deps) = None then [DockerVersionLabel deps] else [])
          @ (if labels (DockerRevisionLabel deps) = None then [DockerRevisionLabel deps] else [])
          @ (if labels (DockerPathLabel deps) = None then [DockerPathLabel deps] else [])
      in if length missingLabels > 0
         then (zeroSourceVersion, Some (Errorf_missing_labels missingLabels))
         else (case semv_Parse deps (the (labels (DockerVersionLabel deps))) of
                 (version, err) \<Rightarrow>
                   (\<lparr>RepoURL = the (labels (DockerRepoLabel deps)),
                     RepoOffset = the (labels (DockerPathLabel deps)),
                     Version = version\<lparr>Meta := the (labels (DockerRevisionLabel deps))\<rparr>\<rparr>,
                    err)))"

definition makeSourceVersion ::
  "'ref deps \<Rightarrow> string \<Rightarrow> string \<Rightarrow> string \<Rightarrow> SourceVersion \<times> error option" where
  "makeSourceVersion deps repo offset version =
     (case semv_Parse deps version of
        (v, Some err) \<Rightarrow> (zeroSourceVersion, Some err)
      | (v, None) \<Rightarrow> (\<lparr>RepoURL = repo, RepoOffset = offset, Version = v\<rparr>, None))"

subsection \<open>Database access of the name cache\<close>

text \<open>
  \<^verbatim>\<open>db.Exec\<close> of an insert statement: the driver's answer first, then the statement.
  The result is the error or the id of the new row (\<^verbatim>\<open>LastInsertId\<close>, which does not
  fail on this driver).
\<close>

definition Exec :: "(database \<Rightarrow> nat \<times> database) \<Rightarrow> database \<Rightarrow> (error + nat) \<times> database" where
  "Exec stmt d =
     (case nextFault d of
        (Some err, d1) \<Rightarrow> (Inl err, d1)
      | (None, d1) \<Rightarrow> (case stmt d1 of (i, d2) \<Rightarrow> (Inr i, d2)))"

text \<open>
  \<^verbatim>\<open>dbInsert\<close>. The error of the first \<^verbatim>\<open>Exec\<close> is overwritten before it is looked at
  and \<^verbatim>\<open>LastInsertId\<close> is called on its result, which is \<^verbatim>\<open>nil\<close> when the statement
  failed: that call panics. (The id of the new row of the join table is not used.)
\<close>

definition dbInsert ::
  "'ref deps \<Rightarrow> database \<Rightarrow> SourceVersion \<Rightarrow> string \<Rightarrow> string
     \<Rightarrow> (error option \<times> database) outcome" where
  "dbInsert deps d sv inp etag =
     (case reference_ParseNamed deps inp of
        (ref, Some err) \<Rightarrow> Returned (Some (Errorf_for err inp), d)
      | (ref, None) \<Rightarrow>
     (case Exec (insertRepoName (Named_Name deps ref)) d of
        (Inl err, d1) \<Rightarrow> Panicked
      | (Inr nid, d1) \<Rightarrow>
     (case Exec (insertLocation (RepoURL sv) (RepoOffset sv)) d1 of
        (Inl err, d2) \<Rightarrow> Returned (Some err, d2)
      | (Inr lid, d2) \<Rightarrow>
     (case Exec (\<lambda>d'. (0, insertThrough nid lid d')) d2 of
        (Inl err, d3) \<Rightarrow> Returned (Some err, d3)
      | (Inr unused, d3) \<Rightarrow>
     (case Exec (insertMetadata lid etag inp (Version_Format_MMPPre deps (Version sv))) d3 of
        (Inl err, d4) \<Rightarrow> Returned (Some err, d4)
      | (Inr mid, d4) \<Rightarrow>
     (case Exec (insertName mid inp) d4 of
        (Inl err, d5) \<Rightarrow> Returned (Some err, d5)
      | (Inr unused, d5) \<Rightarrow> Returned (None, d5)))))))"

text \<open>The loop of \<^verbatim>\<open>dbAddNames\<close> over the prepared statement.\<close>

fun addNames :: "database \<Rightarrow> nat \<Rightarrow> string list \<Rightarrow> error option \<times> database" where
  "addNames d i [] = (None, d)"
| "addNames d i (n # ns) =
     (case Exec (insertName i n) d of
        (Inl err, d1) \<Rightarrow> (Some err, d1)
      | (Inr unused, d1) \<Rightarrow> addNames d1 i ns)"

text \<open>
  \<^verbatim>\<open>dbAddNames\<close>: \<^verbatim>\<open>QueryRow\<close> with \<^verbatim>\<open>Scan\<close> reads the first row or gives
  \<^verbatim>\<open>sql.ErrNoRows\<close>; then \<^verbatim>\<open>Prepare\<close>, then one \<^verbatim>\<open>Exec\<close> for each name.
\<close>

definition dbAddNames :: "database \<Rightarrow> string \<Rightarrow> string list \<Rightarrow> error option \<times> database" where
  "dbAddNames d cn ins =
     (case nextFault d of
        (Some err, d1) \<Rightarrow> (Some err, d1)
      | (None, d1) \<Rightarrow>
          (case selectMetadataId d1 cn of
             [] \<Rightarrow> (Some ErrNoRows, d1)
           | i # rest \<Rightarrow>
               (case nextFault d1 of
                  (Some err, d2) \<Rightarrow> (Some err, d2)
                | (None, d2) \<Rightarrow> addNames d2 i ins)))"

text \<open>
  \<^verbatim>\<open>dbQueryOnName\<close>, results \<^verbatim>\<open>(etag, repo, offset, version, cname)\<close> and \<^verbatim>\<open>err\<close>;
  when \<^verbatim>\<open>Scan\<close> fails the five strings keep their zero value.
\<close>

definition dbQueryOnName ::
  "database \<Rightarrow> string
     \<Rightarrow> ((string \<times> string \<times> string \<times> string \<times> string) \<times> error option) \<times> database" where
  "dbQueryOnName d inp =
     (case nextFault d of
        (Some err, d1) \<Rightarrow>
          (if err = ErrNoRows then ((([], [], [], [], []), Some (NoSourceVersionFound inp)), d1)
           else ((([], [], [], [], []), Some err), d1))
      | (None, d1) \<Rightarrow>
          (case selectOnName d1 inp of
             [] \<Rightarrow> ((([], [], [], [], []), Some (NoSourceVersionFound inp)), d1)
           | row # rest \<Rightarrow> ((row, None), d1)))"

text \<open>
  \<^verbatim>\<open>dbQueryOnSL\<close>. The rows are read to the end; reading them does not fail
  (\<^verbatim>\<open>rows.Err()\<close> is \<^verbatim>\<open>nil\<close>).
\<close>

definition dbQueryOnSL ::
  "database \<Rightarrow> SourceLocation \<Rightarrow> (string list \<times> error option) \<times> database" where
  "dbQueryOnSL d sl =
     (case nextFault d of
        (Some err, d1) \<Rightarrow> (([], Some err), d1)
      | (None, d1) \<Rightarrow>
          (let rs = selectOnSL d1 (RepoURL sl) (RepoOffset sl)
           in if length rs = 0 then ((rs, Some (Errorf_no_repos_found sl)), d1)
              else ((rs, None), d1)))"

text \<open>
  \<^verbatim>\<open>dbQueryOnSV\<close>, results \<^verbatim>\<open>(cn, ins)\<close> and \<^verbatim>\<open>err\<close>: \<^verbatim>\<open>cn\<close> is the canonical name
  of the last row read.
\<close>

definition dbQueryOnSV ::
  "'ref deps \<Rightarrow> database \<Rightarrow> SourceVersion
     \<Rightarrow> ((string \<times> string list) \<times> error option) \<times> database" where
  "dbQueryOnSV deps d sv =
     (case nextFault d of
        (Some err, d1) \<Rightarrow>
          (if err = ErrNoRows then ((([], []), Some (NoImageNameFound sv)), d1)
           else ((([], []), Some err), d1))
      | (None, d1) \<Rightarrow>
          (let rows = selectOnSV d1 (RepoURL sv) (RepoOffset sv)
                        (Version_String deps (Version sv));
               cn = (if rows = [] then [] else fst (last rows));
               ins = map snd rows
           in if length ins = 0 then (((cn, ins), Some (NoImageNameFound sv)), d1)
              else (((cn, ins), None), d1)))"

subsection \<open>The operations of the name cache\<close>

text \<open>
  The first block of \<^verbatim>\<open>GetSourceVersion\<close>: the lookup by name. \<open>Inl\<close> is an early
  return; \<open>Inr\<close> carries on with the etag and the \<^verbatim>\<open>sv\<close> found (the zero value and the
  empty etag when there is no row).
\<close>

definition lookupCached ::
  "'ref deps \<Rightarrow> database \<Rightarrow> string
     \<Rightarrow> ((SourceVersion \<times> error) + (string \<times> SourceVersion)) \<times> database" where
  "lookupCached deps d inp =
     (case dbQueryOnName d inp of
        (((etag, repo, offset, version, cname), Some err), d1) \<Rightarrow>
          (if isNoSourceVersionFound err then (Inr (etag, zeroSourceVersion), d1)
           else (Inl (zeroSourceVersion, err), d1))
      | (((etag, repo, offset, version, cname), None), d1) \<Rightarrow>
          (case makeSourceVersion deps repo offset version of
             (sv, Some err) \<Rightarrow> (Inl (sv, err), d1)
           | (sv, None) \<Rightarrow> (Inr (etag, sv), d1)))"

definition GetSourceVersion ::
  "'ref deps \<Rightarrow> 'r RegistryClient \<Rightarrow> 'r NameCache \<Rightarrow> string
     \<Rightarrow> ((SourceVersion \<times> error option) \<times> 'r NameCache) outcome" where
  "GetSourceVersion deps rc nc inp =
     (case lookupCached deps (db nc) inp of
        (Inl (sv, err), d1) \<Rightarrow> Returned ((sv, Some err), nc\<lparr>db := d1\<rparr>)
      | (Inr (etag, sv), d1) \<Rightarrow>
          (case GetImageMetadata rc (registryClient nc) inp etag of
             ((md, err), r1) \<Rightarrow>
               (let nc1 = nc\<lparr>registryClient := r1, db := d1,
                            registryCalls :=
                              registryCalls nc @ [GetImageMetadataCall inp etag err]\<rparr>
                in case err of
                     Some e \<Rightarrow>
                       (if isNotModifiedErr e then Returned ((sv, None), nc1)
                        else Returned ((sv, Some e), nc1))
                   | None \<Rightarrow>
                       (case SourceVersionFromLabels deps (Labels md) of
                          (newSV, Some e) \<Rightarrow> Returned ((sv, Some e), nc1)
                        | (newSV, None) \<Rightarrow>
                            (case dbInsert deps d1 newSV (CanonicalName md) (Etag md) of
                               Panicked \<Rightarrow> Panicked
                             | Returned (Some e, d2) \<Rightarrow>
                                 Returned ((sv, Some e), nc1\<lparr>db := d2\<rparr>)
                             | Returned (None, d2) \<Rightarrow>
                                 (case dbAddNames d2 (CanonicalName md) (AllNames md) of
                                    (err', d3) \<Rightarrow>
                                      Returned ((newSV, err'), nc1\<lparr>db := d3\<rparr>)))))))"

text \<open>
  The inner loop of \<^verbatim>\<open>harvest\<close> over the tags of one repository: the value and the
  error of \<^verbatim>\<open>GetSourceVersion\<close> are dropped; a panic inside it is not.
\<close>

fun harvestTags ::
  "'ref deps \<Rightarrow> 'r RegistryClient \<Rightarrow> 'r NameCache \<Rightarrow> 'ref \<Rightarrow> string list
     \<Rightarrow> 'r NameCache outcome" where
  "harvestTags deps rc nc ref [] = Returned nc"
| "harvestTags deps rc nc ref (t # ts) =
     (case reference_WithTag deps ref t of
        (tagged, Some err) \<Rightarrow> harvestTags deps rc nc ref ts
      | (tagged, None) \<Rightarrow>
          (case GetSourceVersion deps rc nc (Named_String deps tagged) of
             Panicked \<Rightarrow> Panicked
           | Returned (res, nc1) \<Rightarrow> harvestTags deps rc nc1 ref ts))"

text \<open>The outer loop of \<^verbatim>\<open>harvest\<close> over the repository names.\<close>

fun harvestRepos ::
  "'ref deps \<Rightarrow> 'r RegistryClient \<Rightarrow> 'r NameCache \<Rightarrow> string list
     \<Rightarrow> (error option \<times> 'r NameCache) outcome" where
  "harvestRepos deps rc nc [] = Returned (None, nc)"
| "harvestRepos deps rc nc (r # repos) =
     (case reference_ParseNamed deps r of
        (ref, Some err) \<Rightarrow> Returned (Some (Errorf_for err r), nc)
      | (ref, None) \<Rightarrow>
          (case AllTags rc (registryClient nc) r of
             ((ts, err), r1) \<Rightarrow>
               (let nc1 = nc\<lparr>registryClient := r1,
                            registryCalls := registryCalls nc @ [AllTagsCall r ts err]\<rparr>
                in case err of
                     Some e \<Rightarrow> harvestRepos deps rc nc1 repos
                   | None \<Rightarrow>
                       (case harvestTags deps rc nc1 ref ts of
                          Panicked \<Rightarrow> Panicked
                        | Returned nc2 \<Rightarrow> harvestRepos deps rc nc2 repos))))"

definition harvest ::
  "'ref deps \<Rightarrow> 'r RegistryClient \<Rightarrow> 'r NameCache \<Rightarrow> SourceLocation
     \<Rightarrow> (error option \<times> 'r NameCache) outcome" where
  "harvest deps rc nc sl =
     (case dbQueryOnSL (db nc) sl of
        ((repos, Some err), d1) \<Rightarrow> Returned (Some err, nc\<lparr>db := d1\<rparr>)
      | ((repos, None), d1) \<Rightarrow> harvestRepos deps rc (nc\<lparr>db := d1\<rparr>) repos)"

definition GetImageName ::
  "'ref deps \<Rightarrow> 'r RegistryClient \<Rightarrow> 'r NameCache \<Rightarrow> SourceVersion
     \<Rightarrow> ((string \<times> error option) \<times> 'r NameCache) outcome" where
  "GetImageName deps rc nc sv =
     (case dbQueryOnSV deps (db nc) sv of
        (((cn, ins), Some err), d1) \<Rightarrow>
          (if isNoImageNameFound err then
             (case harvest deps rc (nc\<lparr>db := d1\<rparr>) (SourceVersion_CanonicalName sv) of
                Panicked \<Rightarrow> Panicked
              | Returned (Some err1, nc1) \<Rightarrow> Returned (([], Some err1), nc1)
              | Returned (None, nc1) \<Rightarrow>
                  (case dbQueryOnSV deps (db nc1) sv of
                     (((cn2, ins2), Some err2), d2) \<Rightarrow>
                       Returned (([], Some err2), nc1\<lparr>db := d2\<rparr>)
                   | (((cn2, ins2), None), d2) \<Rightarrow>
                       Returned ((cn2, None), nc1\<lparr>db := d2\<rparr>)))
           else Returned (([], Some err), nc\<lparr>db := d1\<rparr>))
      | (((cn, ins), None), d1) \<Rightarrow> Returned ((cn, None), nc\<lparr>db := d1\<rparr>))"

definition Insert ::
  "'ref deps \<Rightarrow> 'r NameCache \<Rightarrow> SourceVersion \<Rightarrow> string \<Rightarrow> string
     \<Rightarrow> (error option \<times> 'r NameCache) outcome" where
  "Insert deps nc sv inp etag =
     (case dbInsert deps (db nc) sv inp etag of
        Panicked \<Rightarrow> Panicked
      | Returned (err, d1) \<Rightarrow> Returned (err, nc\<lparr>db := d1\<rparr>))"

definition GetCanonicalName :: "'r NameCache \<Rightarrow> string \<Rightarrow> (string \<times> error option) \<times> 'r NameCache" where
  "GetCanonicalName nc inp =
     (case dbQueryOnName (db nc) inp of
        (((etag, repo, offset, version, cn), err), d1) \<Rightarrow> ((cn, err), nc\<lparr>db := d1\<rparr>))"

subsection \<open>Notions used to state the properties of the name cache\<close>

text \<open>
  What a successful \<^verbatim>\<open>dbInsert\<close> leaves in the three tables that the lookup by
  \<^verbatim>\<open>SourceVersion\<close> joins: one location id \<open>lid\<close> for the pair of repository and offset,
  a metadata row under \<open>lid\<close> and the version with the canonical name \<open>inp\<close> (and no
  other canonical name under that key), and a name row that points to it.
\<close>

definition inserted :: "database \<Rightarrow> string \<Rightarrow> string \<Rightarrow> string \<Rightarrow> string \<Rightarrow> bool" where
  "inserted d repo offset version inp \<longleftrightarrow>
     (\<exists>lid mid.
        (\<exists>l \<in> set (docker_search_location d).
           loc_location_id l = lid \<and> loc_repo l = repo \<and> loc_offset l = offset)
      \<and> (\<forall>l \<in> set (docker_search_location d).
           loc_repo l = repo \<and> loc_offset l = offset \<longrightarrow> loc_location_id l = lid)
      \<and> (\<exists>m \<in> set (docker_search_metadata d).
           md_metadata_id m = mid \<and> md_location_id m = lid \<and> md_version m = version
           \<and> md_canonicalName m = inp)
      \<and> (\<forall>m \<in> set (docker_search_metadata d).
           md_location_id m = lid \<and> md_version m = version \<longrightarrow> md_canonicalName m = inp)
      \<and> (\<exists>n \<in> set (docker_search_name d). nm_metadata_id n = mid))"

text \<open>
  The harvest of one repository in the spec's words, to compare \<open>harvestTags\<close> with:
  "for every (repo, tag) pair call \<^verbatim>\<open>GetSourceVersion\<close> to pull it into the cache (errors
  during harvest are swallowed per-tag)". \<open>taggedNames\<close> are the image names of the pairs
  that can be formed; \<open>pullAll\<close> calls \<^verbatim>\<open>GetSourceVersion\<close> on each name in turn and
  drops what it returns.
\<close>

definition taggedNames :: "'ref deps \<Rightarrow> 'ref \<Rightarrow> string list \<Rightarrow> string list" where
  "taggedNames deps ref ts =
     concat (map (\<lambda>t. case reference_WithTag deps ref t of
                         (tagged, None) \<Rightarrow> [Named_String deps tagged]
                       | (tagged, Some err) \<Rightarrow> []) ts)"

fun pullAll ::
  "'ref deps \<Rightarrow> 'r RegistryClient \<Rightarrow> 'r NameCache \<Rightarrow> string list \<Rightarrow> 'r NameCache outcome" where
  "pullAll deps rc nc [] = Returned nc"
| "pullAll deps rc nc (name # names) =
     (case GetSourceVersion deps rc nc name of
        Panicked \<Rightarrow> Panicked
      | Returned (res, nc1) \<Rightarrow> pullAll deps rc nc1 names)"

text \<open>
  The harvest in the spec's words, to compare \<open>harvest\<close> with: "find every known alias
  repository name ever recorded for this \<^verbatim>\<open>SourceLocation\<close>, list all registry tags for
  each, and for every (repo, tag) pair call \<^verbatim>\<open>GetSourceVersion\<close>". \<open>pullRepos\<close> takes
  the recorded repository names in turn: one \<^verbatim>\<open>AllTags\<close> call on the registry client
  for the name, then \<open>pullAll\<close> on the names of its tags; when \<^verbatim>\<open>AllTags\<close> answers with
  an error there are no tags to pull.
\<close>

fun pullRepos ::
  "'ref deps \<Rightarrow> 'r RegistryClient \<Rightarrow> 'r NameCache \<Rightarrow> string list \<Rightarrow> 'r NameCache outcome" where
  "pullRepos deps rc nc [] = Returned nc"
| "pullRepos deps rc nc (r # repos) =
     (case AllTags rc (registryClient nc) r of
        ((ts, err), r1) \<Rightarrow>
          (case pullAll deps rc
                  (nc\<lparr>registryClient := r1,
                      registryCalls := registryCalls nc @ [AllTagsCall r ts err]\<rparr>)
                  (if err = None
                   then taggedNames deps (fst (reference_ParseNamed deps r)) ts else []) of
             Panicked \<Rightarrow> Panicked
           | Returned nc1 \<Rightarrow> pullRepos deps rc nc1 repos))"

section \<open>Example inputs\<close>

text \<open>
  Concrete values on which the theorems below are instantiated: a version with its text,
  stand-ins for \<^verbatim>\<open>semv.Parse\<close>, \<^verbatim>\<open>Version.String\<close> and
  \<^verbatim>\<open>Version.Format(semv.MMPPre)\<close> that know the versions 1.2.3 and 0.0.0, deployments, and a scheduler client whose \<^verbatim>\<open>ImageName\<close> fails on the cluster
  \<^verbatim>\<open>bad\<close> and whose \<^verbatim>\<open>Scale\<close> always fails. The world of the example client is a
  counter of the calls made.
\<close>

definition exVersion :: Version where
  "exVersion = \<lparr>Major = 1, Minor = 2, Patch = 3, Pre = [], Meta = []\<rparr>"

definition exFormatMMPPre :: "Version \<Rightarrow> string" where
  "exFormatMMPPre v =
     (if Major v = 1 \<and> Minor v = 2 \<and> Patch v = 3 \<and> Pre v = [] then ''1.2.3'' else ''0.0.0'')"

definition exVersionString :: "Version \<Rightarrow> string" where
  "exVersionString v = exFormatMMPPre v @ (if Meta v = [] then [] else ''+'' @ Meta v)"

definition exSemvParse :: "string \<Rightarrow> Version \<times> error option" where
  "exSemvParse s =
     (if s = ''1.2.3'' then (exVersion, None)
      else if s = ''1.2.3+cabba9e'' then (exVersion\<lparr>Meta := ''cabba9e''\<rparr>, None)
      else if s = ''0.0.0'' then (zeroVersion, None)
      else (zeroVersion, Some (External ''invalid version'')))"

definition exSourceVersion :: "string \<Rightarrow> SourceVersion" where
  "exSourceVersion offset =
     \<lparr>RepoURL = ''github.com/x/y'', RepoOffset = offset, Version = exVersion\<rparr>"

definition exDeployment :: "string \<Rightarrow> string \<Rightarrow> int \<Rightarrow> (nat, nat, nat) Deployment" where
  "exDeployment cluster reqID n =
     \<lparr>Cluster = cluster, RequestID = reqID, NumInstances = n, Resources = 0, Env = 0,
      DeployConfig = \<lparr>Volumes = 0\<rparr>,
      SourceVersion =
        \<lparr>RepoURL = ''github.com/x/y'', RepoOffset = ''sub-dir'', Version = exVersion\<rparr>\<rparr>"

definition exClient :: "(nat, nat, nat, nat) RectificationClient" where
  "exClient =
     \<lparr>Deploy = (\<lambda>w c dep req img r e v. (None, Suc w)),
      PostRequest = (\<lambda>w c req n. (None, Suc w)),
      Scale = (\<lambda>w c req n m. (Some (External ''scale refused''), Suc w)),
      DeleteRequest = (\<lambda>w c req m. (None, Suc w)),
      ImageName = (\<lambda>w d. if Cluster d = ''bad''
                           then (([], Some (External ''no image'')), Suc w)
                           else ((''img'', None), Suc w))\<rparr>"

definition exUuid :: "nat \<Rightarrow> string \<times> nat" where
  "exUuid w = (''6ba7b810-9dad-11d1-80b4-00c04fd430c8'', Suc w)"

definition exPair :: "(nat, nat, nat) DeploymentPair" where
  "exPair = \<lparr>prior = exDeployment ''c1'' [] 1, post = (exDeployment ''c1'' [] 2)\<lparr>Env := 7\<rparr>\<rparr>"


text \<open>
  For the name cache: the imported functions (a reference is kept as its text, its name is
  the text before the colon), a registry that knows the image \<^verbatim>\<open>repo/img:1.0\<close> under the
  etag \<^verbatim>\<open>e1\<close> and the repository \<^verbatim>\<open>repo/img\<close> with the single tag \<^verbatim>\<open>1.0\<close>, and the
  empty cache. The state of the example registry is a counter of the calls made.
\<close>

definition exDeps :: "string deps" where
  "exDeps =
     \<lparr>semv_Parse = exSemvParse,
      Version_String = exVersionString,
      Version_Format_MMPPre = exFormatMMPPre,
      DockerRepoLabel = ''com.opentable.sous.repo_url'',
      DockerVersionLabel = ''com.opentable.sous.version'',
      DockerRevisionLabel = ''com.opentable.sous.revision'',
      DockerPathLabel = ''com.opentable.sous.repo_offset'',
      reference_ParseNamed =
        (\<lambda>s. (s, if s = [] then Some (External ''invalid reference format'') else None)),
      reference_WithTag =
        (\<lambda>ref t. (takeWhile (\<lambda>c. c \<noteq> CHR '':'') ref @ '':'' @ t, None)),
      Named_Name = takeWhile (\<lambda>c. c \<noteq> CHR '':''),
      Named_String = (\<lambda>ref. ref)\<rparr>"

definition exMetadata :: Metadata where
  "exMetadata =
     \<lparr>Labels = [''com.opentable.sous.repo_url'' \<mapsto> ''github.com/x/y'',
                ''com.opentable.sous.version'' \<mapsto> ''1.2.3'',
                ''com.opentable.sous.revision'' \<mapsto> ''cabba9e'',
                ''com.opentable.sous.repo_offset'' \<mapsto> ''sub''],
      CanonicalName = ''repo/img:1.0'',
      AllNames = [''repo/img:1.0'', ''repo/img:latest''],
      Etag = ''e1''\<rparr>"

definition zeroMetadata :: Metadata where
  "zeroMetadata = \<lparr>Labels = Map.empty, CanonicalName = [], AllNames = [], Etag = []\<rparr>"

definition exRegistry :: "nat RegistryClient" where
  "exRegistry =
     \<lparr>GetImageMetadata = (\<lambda>r name etag.
        if name = ''repo/img:1.0''
        then (if etag = ''e1'' then ((zeroMetadata, Some NotModifiedErr), Suc r)
              else ((exMetadata, None), Suc r))
        else ((zeroMetadata, Some (External ''manifest unknown'')), Suc r)),
      AllTags = (\<lambda>r repo.
        if repo = ''repo/img'' then (([''1.0''], None), Suc r)
        else (([], Some (External ''repository unknown'')), Suc r))\<rparr>"

definition newNameCache :: "nat NameCache" where
  "newNameCache = \<lparr>registryClient = 0, db = newDatabase, registryCalls = []\<rparr>"

text \<open>
  The cache after \<^verbatim>\<open>Insert\<close> of version 1.2.3 of \<^verbatim>\<open>github.com/x/y\<close>, offset
  \<^verbatim>\<open>sub\<close>, under the image name \<^verbatim>\<open>repo/img:1.0\<close> and the etag \<^verbatim>\<open>e1\<close>; and version
  0.0.0 of the same location, which the cache does not hold.
\<close>

definition exInsertedCache :: "nat NameCache" where
  "exInsertedCache =
     \<lparr>registryClient = 0,
      db = \<lparr>docker_repo_name = [\<lparr>rn_repo_name_id = 1, rn_name = ''repo/img''\<rparr>],
            docker_search_location =
              [\<lparr>loc_location_id = 1, loc_repo = ''github.com/x/y'', loc_offset = ''sub''\<rparr>],
            repo_through_location = [\<lparr>rtl_repo_name_id = 1, rtl_location_id = 1\<rparr>],
            docker_search_metadata =
              [\<lparr>md_metadata_id = 1, md_location_id = 1, md_etag = ''e1'',
                 md_canonicalName = ''repo/img:1.0'', md_version = ''1.2.3''\<rparr>],
            docker_search_name =
              [\<lparr>nm_name_id = 1, nm_metadata_id = 1, nm_name = ''repo/img:1.0''\<rparr>],
            seq_repo_name = 1, seq_location = 1, seq_metadata = 1, seq_name = 1,
            faults = []\<rparr>,
      registryCalls = []\<rparr>"

definition exOtherVersion :: SourceVersion where
  "exOtherVersion = \<lparr>RepoURL = ''github.com/x/y'', RepoOffset = ''sub'', Version = zeroVersion\<rparr>"



section \<open>Properties of the identity model\<close>

subsection \<open>\<^verbatim>\<open>strings.Split\<close> on a one-byte separator\<close>

lemma splitFrom_single:
  "splitFrom [d] cur s =
     (if d \<in> set s
      then (rev cur @ takeWhile (\<lambda>c. c \<noteq> d) s)
             # splitFrom [d] [] (tl (dropWhile (\<lambda>c. c \<noteq> d) s))
      else [rev cur @ s])"
proof (induction s arbitrary: cur)
  case Nil
  show ?case by (subst splitFrom.simps) simp
next
  case (Cons c s)
  show ?case
  proof (cases "c = d")
    case True
    then show ?thesis by (subst splitFrom.simps) simp
  next
    case False
    then have "splitFrom [d] cur (c # s) = splitFrom [d] (c # cur) s"
      by (subst splitFrom.simps) simp
    with False Cons.IH [of "c # cur"] show ?thesis by simp
  qed
qed

lemma splitFrom_nonempty: "splitFrom sep cur s \<noteq> []"
  by (induction sep cur s rule: splitFrom.induct) (subst splitFrom.simps, simp split: list.splits)

lemma strings_Split_nonempty: "strings_Split s sep \<noteq> []"
  by (simp add: strings_Split_def splitFrom_nonempty)

lemma takeWhile_absent: "d \<notin> set s \<Longrightarrow> takeWhile (\<lambda>c. c \<noteq> d) s = s"
  by (induction s) auto

lemma dropWhile_absent: "d \<notin> set a \<Longrightarrow> dropWhile (\<lambda>c. c \<noteq> d) (a @ d # rest) = d # rest"
  by (induction a) auto

lemma takeWhile_absent_append:
  "d \<notin> set a \<Longrightarrow> takeWhile (\<lambda>c. c \<noteq> d) (a @ d # rest) = a"
  by (induction a) auto

lemma hd_strings_Split_single: "hd (strings_Split s [d]) = takeWhile (\<lambda>c. c \<noteq> d) s"
  unfolding strings_Split_def by (subst splitFrom_single) (simp add: takeWhile_absent)

lemma strings_Split_no_delim: "d \<notin> set s \<Longrightarrow> strings_Split s [d] = [s]"
  unfolding strings_Split_def by (subst splitFrom_single) simp

lemma strings_Split_first:
  "d \<notin> set a \<Longrightarrow> strings_Split (a @ d # rest) [d] = a # strings_Split rest [d]"
  unfolding strings_Split_def
  by (subst splitFrom_single) (simp add: dropWhile_absent takeWhile_absent_append)

lemma takeWhile_eq_prefix: "takeWhile P (xs @ y # ys) = xs \<Longrightarrow> \<not> P y"
  by (induction xs) (auto split: if_splits)

subsection \<open>Where the parsers panic\<close>

lemma parseChunks_cases:
  "nfc source = [] \<Longrightarrow> parseChunks nfc source = Panicked"
  "nfc source = b # rest \<Longrightarrow> \<not> isUpperAZ b \<Longrightarrow> \<not> isLowerAZ b \<Longrightarrow>
     parseChunks nfc source = Returned (strings_Split rest [b])"
  "nfc source = b # rest \<Longrightarrow> isUpperAZ b \<or> isLowerAZ b \<Longrightarrow>
     parseChunks nfc source = Returned (strings_Split (b # rest) '','')"
  by (auto simp: parseChunks_def DefaultDelim_def)

lemma parseChunks_returns:
  "nfc source \<noteq> [] \<Longrightarrow> \<exists>chunks. parseChunks nfc source = Returned chunks \<and> chunks \<noteq> []"
  by (cases "nfc source") (auto simp: parseChunks_def strings_Split_nonempty)

lemma sourceVersionFromChunks_panics:
  "chunks \<noteq> [] \<Longrightarrow>
     sourceVersionFromChunks semvParse source chunks = Panicked
       \<longleftrightarrow> length chunks = 1 \<and> hd chunks \<noteq> []"
  by (auto simp: sourceVersionFromChunks_def split: list.splits prod.splits option.splits)

lemma canonicalNameFromChunks_returns:
  "chunks \<noteq> [] \<Longrightarrow> canonicalNameFromChunks source chunks \<noteq> Panicked"
  by (auto simp: canonicalNameFromChunks_def split: list.splits)

lemmas parse_eval =
  ParseSourceVersion_def ParseCanonicalName_def parseChunks_def isUpperAZ_def isLowerAZ_def
  strings_Split_def splitFrom.simps DefaultDelim_def sourceVersionFromChunks_def
  canonicalNameFromChunks_def zeroSourceVersion_def zeroSourceLocation_def

text \<open>
  Claim C9, as amended. Provided normalisation maps exactly the empty string to the empty
  string: \<^verbatim>\<open>ParseSourceVersion\<close> and \<^verbatim>\<open>ParseCanonicalName\<close> both panic on the empty
  string (the read of \<^verbatim>\<open>source[0]\<close> is out of range; no error value is returned). On
  every non-empty input \<^verbatim>\<open>parseChunks\<close> returns at least one chunk,
  \<^verbatim>\<open>ParseCanonicalName\<close> does not panic, and \<^verbatim>\<open>ParseSourceVersion\<close> panics exactly
  when there is one chunk and that chunk is not empty (the read of \<^verbatim>\<open>chunks[1]\<close> is out
  of range); when the only chunk is empty it returns the \<^verbatim>\<open>MissingRepo\<close> error instead.
  So with a non-empty input that splits into at least two chunks no read is out of range.
\<close>

theorem parse_index_out_of_range:
  assumes nfc: "\<And>s. nfc s = [] \<longleftrightarrow> s = []"
  shows "ParseSourceVersion nfc semvParse [] = Panicked
       \<and> ParseCanonicalName nfc [] = Panicked
       \<and> (source \<noteq> [] \<longrightarrow>
            (\<exists>chunks. parseChunks nfc source = Returned chunks \<and> chunks \<noteq> []
               \<and> (ParseSourceVersion nfc semvParse source = Panicked
                    \<longleftrightarrow> length chunks = 1 \<and> hd chunks \<noteq> [])
               \<and> (length chunks = 1 \<and> hd chunks = [] \<longrightarrow>
                    ParseSourceVersion nfc semvParse source =
                      Returned (zeroSourceVersion, Some (MissingRepo source)))
               \<and> ParseCanonicalName nfc source \<noteq> Panicked))"
proof (intro conjI impI)
  have "nfc [] = []" using nfc by simp
  then show "ParseSourceVersion nfc semvParse [] = Panicked"
    and "ParseCanonicalName nfc [] = Panicked"
    by (simp_all add: ParseSourceVersion_def ParseCanonicalName_def parseChunks_def)
next
  assume "source \<noteq> []"
  then have "nfc source \<noteq> []" using nfc by simp
  then obtain chunks where c: "parseChunks nfc source = Returned chunks" "chunks \<noteq> []"
    using parseChunks_returns by blast
  have p: "ParseSourceVersion nfc semvParse source = Panicked
             \<longleftrightarrow> length chunks = 1 \<and> hd chunks \<noteq> []"
    using c by (simp add: ParseSourceVersion_def sourceVersionFromChunks_panics)
  have m: "length chunks = 1 \<and> hd chunks = [] \<longrightarrow>
             ParseSourceVersion nfc semvParse source =
               Returned (zeroSourceVersion, Some (MissingRepo source))"
    using c by (auto simp: ParseSourceVersion_def sourceVersionFromChunks_def split: list.splits)
  have q: "ParseCanonicalName nfc source \<noteq> Panicked"
    using c by (simp add: ParseCanonicalName_def canonicalNameFromChunks_returns)
  from c p m q
  show "\<exists>chunks. parseChunks nfc source = Returned chunks \<and> chunks \<noteq> []
               \<and> (ParseSourceVersion nfc semvParse source = Panicked
                    \<longleftrightarrow> length chunks = 1 \<and> hd chunks \<noteq> [])
               \<and> (length chunks = 1 \<and> hd chunks = [] \<longrightarrow>
                    ParseSourceVersion nfc semvParse source =
                      Returned (zeroSourceVersion, Some (MissingRepo source)))
               \<and> ParseCanonicalName nfc source \<noteq> Panicked"
    by blast
qed

theorem parse_index_out_of_range_witness:
  "ParseSourceVersion (\<lambda>s. s) exSemvParse [] = Panicked
   \<and> ParseCanonicalName (\<lambda>s. s) [] = Panicked
   \<and> parseChunks (\<lambda>s. s) ''github.com/x/y 1.2.3'' = Returned [''github.com/x/y 1.2.3'']
   \<and> ParseSourceVersion (\<lambda>s. s) exSemvParse ''github.com/x/y 1.2.3'' = Panicked
   \<and> ParseCanonicalName (\<lambda>s. s) ''github.com/x/y 1.2.3'' \<noteq> Panicked
   \<and> ParseSourceVersion (\<lambda>s. s) exSemvParse ''github.com/x/y,1.2.3'' \<noteq> Panicked"
  using parse_index_out_of_range [of "\<lambda>s. s" exSemvParse "''github.com/x/y 1.2.3''"]
    parse_index_out_of_range [of "\<lambda>s. s" exSemvParse "''github.com/x/y,1.2.3''"]
  by (simp add: parse_eval exSemvParse_def)

text \<open>
  The claim as it was stated (every non-empty input that splits into exactly one chunk
  makes \<^verbatim>\<open>ParseSourceVersion\<close> read out of range) fails on the input \<^verbatim>\<open>"-"\<close>: it
  splits into the single chunk \<^verbatim>\<open>""\<close>, and \<^verbatim>\<open>MissingRepo\<close> is returned before
  \<^verbatim>\<open>chunks[1]\<close> is read.
\<close>

theorem single_empty_chunk_counterexample:
  "parseChunks (\<lambda>s. s) ''-'' = Returned [[]]
   \<and> ParseSourceVersion (\<lambda>s. s) exSemvParse ''-''
       = Returned (zeroSourceVersion, Some (MissingRepo ''-''))"
  by (simp add: parse_eval)

subsection \<open>Round trips\<close>

text \<open>
  Claim C8, as amended. For every \<^verbatim>\<open>SourceLocation\<close> with an empty offset whose
  repository URL begins with an ASCII letter and holds no comma, and whose \<^verbatim>\<open>String()\<close>
  text normalisation leaves unchanged, \<^verbatim>\<open>ParseCanonicalName(sl.String())\<close> returns the
  location with no error. And every input that splits into three chunks or more makes
  \<^verbatim>\<open>ParseCanonicalName\<close> fail with \<^verbatim>\<open>IncludesVersion\<close> for that input.
\<close>

theorem ParseCanonicalName_roundtrip_without_offset:
  "(RepoOffset sl = [] \<and> (\<exists>b r. RepoURL sl = b # r \<and> (isUpperAZ b \<or> isLowerAZ b))
      \<and> CHR '','' \<notin> set (RepoURL sl)
      \<and> nfc (SourceLocation_String sl) = SourceLocation_String sl
    \<longrightarrow> ParseCanonicalName nfc (SourceLocation_String sl) = Returned (sl, None))
   \<and> (\<forall>chunks. parseChunks nfc source = Returned chunks \<and> length chunks > 2
        \<longrightarrow> ParseCanonicalName nfc source
              = Returned (zeroSourceLocation, Some (IncludesVersion source)))"
proof (intro conjI impI allI)
  assume h: "RepoOffset sl = [] \<and> (\<exists>b r. RepoURL sl = b # r \<and> (isUpperAZ b \<or> isLowerAZ b))
      \<and> CHR '','' \<notin> set (RepoURL sl)
      \<and> nfc (SourceLocation_String sl) = SourceLocation_String sl"
  then obtain b r where repo: "RepoURL sl = b # r" "isUpperAZ b \<or> isLowerAZ b" by blast
  from h have str: "SourceLocation_String sl = RepoURL sl"
    by (simp add: SourceLocation_String_def)
  from h have "strings_Split (RepoURL sl) '','' = [RepoURL sl]"
    by (simp add: strings_Split_no_delim)
  with h str repo have "parseChunks nfc (SourceLocation_String sl) = Returned [RepoURL sl]"
    by (auto simp: parseChunks_def DefaultDelim_def)
  with h repo show "ParseCanonicalName nfc (SourceLocation_String sl) = Returned (sl, None)"
    by (simp add: ParseCanonicalName_def canonicalNameFromChunks_def zeroSourceLocation_def)
next
  fix chunks
  assume "parseChunks nfc source = Returned chunks \<and> length chunks > 2"
  then show "ParseCanonicalName nfc source
               = Returned (zeroSourceLocation, Some (IncludesVersion source))"
    by (simp add: ParseCanonicalName_def canonicalNameFromChunks_def)
qed

theorem ParseCanonicalName_roundtrip_without_offset_witness:
  "ParseCanonicalName (\<lambda>s. s)
       (SourceLocation_String \<lparr>RepoURL = ''github.com/x/y'', RepoOffset = []\<rparr>)
     = Returned (\<lparr>RepoURL = ''github.com/x/y'', RepoOffset = []\<rparr>, None)
   \<and> parseChunks (\<lambda>s. s) ''github.com/x/y,1.2.3,sub''
     = Returned [''github.com/x/y'', ''1.2.3'', ''sub'']
   \<and> ParseCanonicalName (\<lambda>s. s) ''github.com/x/y,1.2.3,sub''
     = Returned (zeroSourceLocation, Some (IncludesVersion ''github.com/x/y,1.2.3,sub''))"
  using ParseCanonicalName_roundtrip_without_offset
      [of "\<lparr>RepoURL = ''github.com/x/y'', RepoOffset = []\<rparr>" "\<lambda>s. s"
          "''github.com/x/y,1.2.3,sub''"]
  by (simp add: parse_eval SourceLocation_String_def)

text \<open>
  The claim as it was stated (the round trip holds for every location) fails on a location
  with an offset: \<^verbatim>\<open>String\<close> writes \<^verbatim>\<open>repo:offset\<close>, which the parser reads as one
  chunk (the separator it looks for is a comma), so the offset ends up inside the
  repository URL. It also fails on a repository URL that begins with a byte other than a
  letter, which the parser takes for the separator.
\<close>

theorem ParseCanonicalName_String_counterexample:
  "ParseCanonicalName (\<lambda>s. s)
       (SourceLocation_String \<lparr>RepoURL = ''github.com/x/y'', RepoOffset = ''sub''\<rparr>)
     = Returned (\<lparr>RepoURL = ''github.com/x/y:sub'', RepoOffset = []\<rparr>, None)
   \<and> ParseCanonicalName (\<lambda>s. s)
       (SourceLocation_String \<lparr>RepoURL = ''github.com/x/y'', RepoOffset = ''sub''\<rparr>)
     \<noteq> Returned (\<lparr>RepoURL = ''github.com/x/y'', RepoOffset = ''sub''\<rparr>, None)
   \<and> ParseCanonicalName (\<lambda>s. s)
       (SourceLocation_String \<lparr>RepoURL = ''/srv/git/x'', RepoOffset = []\<rparr>)
     = Returned (zeroSourceLocation, Some (IncludesVersion ''/srv/git/x''))"
  by (simp add: parse_eval SourceLocation_String_def)

text \<open>
  The text that \<^verbatim>\<open>SourceVersion.String\<close> writes is never read back as the same
  \<^verbatim>\<open>SourceVersion\<close>: after the repository it has a space or a colon, so the first chunk
  the parser finds is not the repository URL.
\<close>

lemma ParseSourceVersion_success:
  assumes "ParseSourceVersion nfc semvParse src = Returned (sv, None)"
  shows "\<exists>chunks. parseChunks nfc src = Returned chunks \<and> RepoURL sv = hd chunks \<and> hd chunks \<noteq> []"
  using assms
  by (auto simp: ParseSourceVersion_def sourceVersionFromChunks_def zeroSourceVersion_def
      split: outcome.splits list.splits if_splits prod.splits option.splits)

lemma first_chunk_differs:
  assumes norm: "nfc src = src"
    and src: "src = R @ x # tail"
    and x: "x \<noteq> CHR '',''" "\<not> isUpperAZ x" "\<not> isLowerAZ x"
    and chunks: "parseChunks nfc src = Returned chunks"
    and nonempty: "hd chunks \<noteq> []"
  shows "hd chunks \<noteq> R"
proof (cases R)
  case Nil
  with nonempty show ?thesis by simp
next
  case (Cons b r)
  show ?thesis
  proof (cases "isUpperAZ b \<or> isLowerAZ b")
    case True
    with norm src Cons chunks have "chunks = strings_Split (R @ x # tail) '',''"
      by (auto simp: parseChunks_def DefaultDelim_def)
    then have "hd chunks = takeWhile (\<lambda>c. c \<noteq> CHR '','') (R @ x # tail)"
      by (simp add: hd_strings_Split_single)
    with x(1) show ?thesis using takeWhile_eq_prefix [of "\<lambda>c. c \<noteq> CHR '',''" R x tail] by auto
  next
    case False
    with norm src Cons chunks have "chunks = strings_Split (r @ x # tail) [b]"
      by (auto simp: parseChunks_def)
    then have "hd chunks = takeWhile (\<lambda>c. c \<noteq> b) (r @ x # tail)"
      by (simp add: hd_strings_Split_single)
    then have "b \<notin> set (hd chunks)"
      using set_takeWhileD by fastforce
    with Cons show ?thesis by auto
  qed
qed

lemma String_never_parses_back:
  assumes norm: "nfc (SourceVersion_String vString sv) = SourceVersion_String vString sv"
  shows "ParseSourceVersion nfc semvParse (SourceVersion_String vString sv) \<noteq> Returned (sv, None)"
proof
  assume parsed: "ParseSourceVersion nfc semvParse (SourceVersion_String vString sv) = Returned (sv, None)"
  from ParseSourceVersion_success [OF parsed] obtain chunks where
    c: "parseChunks nfc (SourceVersion_String vString sv) = Returned chunks"
    and r: "RepoURL sv = hd chunks" and n: "hd chunks \<noteq> []" by blast
  obtain x tail where s: "SourceVersion_String vString sv = RepoURL sv @ x # tail"
    and x: "x = CHR '' '' \<or> x = CHR '':''"
    by (cases "RepoOffset sv = []") (auto simp: SourceVersion_String_def)
  from x have x': "x \<noteq> CHR '',''" "\<not> isUpperAZ x" "\<not> isLowerAZ x"
    by (auto simp: isUpperAZ_def isLowerAZ_def)
  from first_chunk_differs [OF norm s x' c n] r show False by simp
qed

lemma delimited_parses_back:
  assumes repo: "RepoURL sv = b # r" "isUpperAZ b \<or> isLowerAZ b"
    and nocomma: "CHR '','' \<notin> set (RepoURL sv)" "CHR '','' \<notin> set vtext"
      "CHR '','' \<notin> set (RepoOffset sv)"
    and ver: "semvParse vtext = (Version sv, None)"
    and norm: "nfc (RepoURL sv @ '','' @ vtext @
                 (if RepoOffset sv = [] then [] else '','' @ RepoOffset sv))
               = RepoURL sv @ '','' @ vtext @
                 (if RepoOffset sv = [] then [] else '','' @ RepoOffset sv)"
  shows "ParseSourceVersion nfc semvParse
           (RepoURL sv @ '','' @ vtext @
              (if RepoOffset sv = [] then [] else '','' @ RepoOffset sv))
         = Returned (sv, None)"
proof (cases "RepoOffset sv = []")
  case True
  have split: "strings_Split (RepoURL sv @ CHR '','' # vtext) '','' = [RepoURL sv, vtext]"
    using nocomma by (simp add: strings_Split_first strings_Split_no_delim)
  have "parseChunks nfc (RepoURL sv @ CHR '','' # vtext) = Returned [RepoURL sv, vtext]"
    using norm True repo split by (auto simp: parseChunks_def DefaultDelim_def)
  with True repo ver show ?thesis
    by (simp add: ParseSourceVersion_def sourceVersionFromChunks_def zeroSourceVersion_def)
next
  case False
  have split: "strings_Split (RepoURL sv @ CHR '','' # vtext @ CHR '','' # RepoOffset sv) '',''
                 = [RepoURL sv, vtext, RepoOffset sv]"
    using nocomma by (simp add: strings_Split_first strings_Split_no_delim)
  have "parseChunks nfc (RepoURL sv @ CHR '','' # vtext @ CHR '','' # RepoOffset sv)
          = Returned [RepoURL sv, vtext, RepoOffset sv]"
    using norm False repo split by (auto simp: parseChunks_def DefaultDelim_def)
  with False repo ver show ?thesis
    by (simp add: ParseSourceVersion_def sourceVersionFromChunks_def zeroSourceVersion_def)
qed

text \<open>
  Claim C1, as amended. \<^verbatim>\<open>ParseSourceVersion\<close> reads the comma-separated form
  \<^verbatim>\<open>repo,version[,offset]\<close> back: for every \<^verbatim>\<open>SourceVersion\<close>, with or without an
  offset, whose repository URL begins with an ASCII letter, where neither the URL, the
  version text nor the offset holds a comma, \<^verbatim>\<open>semv.Parse\<close> reads the version text as the
  \<^verbatim>\<open>SourceVersion\<close>'s version, and normalisation leaves the text unchanged, parsing
  \<^verbatim>\<open>repo,version\<close> (empty offset) or \<^verbatim>\<open>repo,version,offset\<close> returns the
  \<^verbatim>\<open>SourceVersion\<close> with no error.
\<close>

theorem ParseSourceVersion_inverts_delimited_form:
  assumes "RepoURL sv = b # r" and "isUpperAZ b \<or> isLowerAZ b"
    and "CHR '','' \<notin> set (RepoURL sv)" and "CHR '','' \<notin> set vtext"
    and "CHR '','' \<notin> set (RepoOffset sv)"
    and "semvParse vtext = (Version sv, None)"
    and "nfc (RepoURL sv @ '','' @ vtext @
                 (if RepoOffset sv = [] then [] else '','' @ RepoOffset sv))
            = RepoURL sv @ '','' @ vtext @
                 (if RepoOffset sv = [] then [] else '','' @ RepoOffset sv)"
  shows "ParseSourceVersion nfc semvParse
            (RepoURL sv @ '','' @ vtext @
               (if RepoOffset sv = [] then [] else '','' @ RepoOffset sv))
          = Returned (sv, None)"
  using assms by (rule delimited_parses_back)

theorem ParseSourceVersion_inverts_delimited_form_witness:
  "ParseSourceVersion (\<lambda>s. s) exSemvParse ''github.com/x/y,1.2.3,sub''
     = Returned (exSourceVersion ''sub'', None)
   \<and> ParseSourceVersion (\<lambda>s. s) exSemvParse ''github.com/x/y,1.2.3''
     = Returned (exSourceVersion [], None)"
  using ParseSourceVersion_inverts_delimited_form
      [of "exSourceVersion ''sub''" "CHR ''g''" "''ithub.com/x/y''" "''1.2.3''" exSemvParse
          "\<lambda>s. s"]
    ParseSourceVersion_inverts_delimited_form
      [of "exSourceVersion []" "CHR ''g''" "''ithub.com/x/y''" "''1.2.3''" exSemvParse
          "\<lambda>s. s"]
  by (simp add: exSourceVersion_def exSemvParse_def isUpperAZ_def isLowerAZ_def)

text \<open>
  The claim as it was stated (parsing \<^verbatim>\<open>sv.String()\<close> returns \<^verbatim>\<open>sv\<close>) fails on the
  spec's own example: the \<^verbatim>\<open>String()\<close> text \<^verbatim>\<open>github.com/x/y 1.2.3\<close> holds no comma,
  so it is a single chunk and \<^verbatim>\<open>ParseSourceVersion\<close> panics on \<^verbatim>\<open>chunks[1]\<close>; the
  same with an offset.
\<close>

theorem ParseSourceVersion_String_counterexample:
  "SourceVersion_String exVersionString
       \<lparr>RepoURL = ''github.com/x/y'', RepoOffset = [], Version = exVersion\<rparr>
     = ''github.com/x/y 1.2.3''
   \<and> ParseSourceVersion (\<lambda>s. s) exSemvParse
        (SourceVersion_String exVersionString
           \<lparr>RepoURL = ''github.com/x/y'', RepoOffset = [], Version = exVersion\<rparr>)
     = Panicked
   \<and> ParseSourceVersion (\<lambda>s. s) exSemvParse
        (SourceVersion_String exVersionString
           \<lparr>RepoURL = ''github.com/x/y'', RepoOffset = ''sub'', Version = exVersion\<rparr>)
     = Panicked"
  by (simp add: parse_eval SourceVersion_String_def exVersionString_def exFormatMMPPre_def
      exVersion_def)

section \<open>Properties of the rectifier\<close>

lemma replaceClass_filter: "replaceClass cls s [] = filter (\<lambda>c. c \<notin> set cls) s"
  by (induction s) auto

lemma idify_filter: "idify s = filter (\<lambda>c. c \<notin> {CHR ''-'', CHR ''/'', CHR '':''}) s"
  by (simp add: idify_def replaceClass_filter notInIDRE_def)

text \<open>
  Claim C5. A deployment with a non-empty \<^verbatim>\<open>RequestID\<close> gets exactly that id. A
  deployment with an empty \<^verbatim>\<open>RequestID\<close> gets the canonical string of its source
  location with every \<^verbatim>\<open>-\<close>, \<^verbatim>\<open>/\<close> and \<^verbatim>\<open>:\<close> removed; the id holds none of
  these three characters; and any other deployment with an empty \<^verbatim>\<open>RequestID\<close> and
  the same canonical string gets the same id (the id is a function of that string alone).
\<close>

theorem computeRequestID_stable:
  "(RequestID d \<noteq> [] \<longrightarrow> computeRequestID d = RequestID d)
   \<and> (RequestID d = [] \<longrightarrow>
        computeRequestID d =
          filter (\<lambda>c. c \<notin> {CHR ''-'', CHR ''/'', CHR '':''})
            (SourceLocation_String (SourceVersion_CanonicalName (SourceVersion d)))
        \<and> CHR ''-'' \<notin> set (computeRequestID d)
        \<and> CHR ''/'' \<notin> set (computeRequestID d)
        \<and> CHR '':'' \<notin> set (computeRequestID d)
        \<and> (\<forall>d' :: ('res, 'env, 'vol) Deployment. RequestID d' = [] \<and>
               SourceLocation_String (SourceVersion_CanonicalName (SourceVersion d')) =
               SourceLocation_String (SourceVersion_CanonicalName (SourceVersion d))
               \<longrightarrow> computeRequestID d' = computeRequestID d))"
  by (simp add: computeRequestID_def idify_filter)

theorem computeRequestID_stable_witness:
  "computeRequestID (exDeployment ''c1'' ''my-request'' 1) = ''my-request''
   \<and> computeRequestID (exDeployment ''c1'' [] 1) = ''github.comxysubdir''
   \<and> CHR ''-'' \<notin> set (computeRequestID (exDeployment ''c1'' [] 1))"
  using computeRequestID_stable [of "exDeployment ''c1'' ''my-request'' 1"]
    computeRequestID_stable [of "exDeployment ''c1'' [] 1"]
  by (simp add: exDeployment_def SourceVersion_CanonicalName_def SourceLocation_String_def
      computeRequestID_def idify_def notInIDRE_def)

lemma rectifyModifys_append:
  "rectifyModifys sing uuid w (xs @ ys) =
     (case rectifyModifys sing uuid w xs of
        (w1, calls1, errs1) \<Rightarrow>
          (case rectifyModifys sing uuid w1 ys of
             (w2, calls2, errs2) \<Rightarrow> (w2, calls1 @ calls2, errs1 @ errs2)))"
  by (induction xs arbitrary: w) (auto split: prod.splits)

text \<open>
  Claim C3. Take a modified pair whose instance counts differ, reached after the worker
  has handled any earlier pairs, and let the \<^verbatim>\<open>Scale\<close> call for it return an error.
  Then the iteration for that pair makes exactly one call, the \<^verbatim>\<open>Scale\<close> call, and
  sends exactly one error, the \<^verbatim>\<open>ChangeError\<close> of the pair with the error
  \<^verbatim>\<open>Scale\<close> returned; it makes no \<^verbatim>\<open>ImageName\<close> and no \<^verbatim>\<open>Deploy\<close> call,
  whatever else differs between \<^verbatim>\<open>prior\<close> and \<^verbatim>\<open>post\<close>; and the
  worker goes on with the later pairs.
\<close>

theorem rectifyModifys_scale_failure:
  assumes before: "rectifyModifys sing uuid w earlier = (w1, calls1, errs1)"
    and differ: "NumInstances (prior pair) \<noteq> NumInstances (post pair)"
    and scale: "Scale sing w1 (Cluster (post pair)) (computeRequestID (post pair))
                  (NumInstances (post pair)) ''rectified scaling'' = (Some err, w2)"
    and after: "rectifyModifys sing uuid w2 later = (w3, calls3, errs3)"
  shows "rectifyModify sing uuid w1 pair =
           (w2, [ScaleCall (Cluster (post pair)) (computeRequestID (post pair))
                   (NumInstances (post pair)) ''rectified scaling'' (Some err)],
            [ChangeError pair err])
       \<and> rectifyModifys sing uuid w (earlier @ pair # later) =
           (w3, calls1 @ [ScaleCall (Cluster (post pair)) (computeRequestID (post pair))
                   (NumInstances (post pair)) ''rectified scaling'' (Some err)] @ calls3,
            errs1 @ [ChangeError pair err] @ errs3)
       \<and> filter isImageNameCall (fst (snd (rectifyModify sing uuid w1 pair))) = []
       \<and> filter isDeployCall (fst (snd (rectifyModify sing uuid w1 pair))) = []"
proof -
  have step: "rectifyModify sing uuid w1 pair =
           (w2, [ScaleCall (Cluster (post pair)) (computeRequestID (post pair))
                   (NumInstances (post pair)) ''rectified scaling'' (Some err)],
            [ChangeError pair err])"
    using differ scale by (simp add: rectifyModify_def changesReq_def)
  have loop: "rectifyModifys sing uuid w (earlier @ pair # later) =
           (w3, calls1 @ [ScaleCall (Cluster (post pair)) (computeRequestID (post pair))
                   (NumInstances (post pair)) ''rectified scaling'' (Some err)] @ calls3,
            errs1 @ [ChangeError pair err] @ errs3)"
    using before after step by (simp add: rectifyModifys_append)
  show ?thesis using step loop by simp
qed

theorem rectifyModifys_scale_failure_witness:
  "rectifyModifys exClient exUuid 0 [exPair] =
     (1, [ScaleCall ''c1'' ''github.comxysubdir'' 2 ''rectified scaling''
            (Some (External ''scale refused''))],
      [ChangeError exPair (External ''scale refused'')])
   \<and> changesDep exPair"
proof -
  have h1: "rectifyModifys exClient exUuid 0 [] = (0, [], [])" by simp
  have h2: "NumInstances (prior exPair) \<noteq> NumInstances (post exPair)"
    by (simp add: exPair_def exDeployment_def)
  have h3: "Scale exClient 0 (Cluster (post exPair)) (computeRequestID (post exPair))
              (NumInstances (post exPair)) ''rectified scaling''
            = (Some (External ''scale refused''), 1)"
    by (simp add: exClient_def)
  have h4: "rectifyModifys exClient exUuid 1 [] = (1, [], [])" by simp
  have id: "computeRequestID (post exPair) = ''github.comxysubdir''"
    by (simp add: exPair_def exDeployment_def computeRequestID_def idify_def notInIDRE_def
        SourceVersion_CanonicalName_def SourceLocation_String_def)
  have dep: "changesDep exPair"
    by (simp add: changesDep_def exPair_def exDeployment_def)
  from rectifyModifys_scale_failure [OF h1 h2 h3 h4] id dep show ?thesis
    by (simp add: exPair_def exDeployment_def)
qed







section \<open>Properties of the name cache\<close>

subsection \<open>The store\<close>

lemma nextFault_healthy: "faults d = [] \<Longrightarrow> nextFault d = (None, d)"
  by (simp add: nextFault_def)

lemma faults_insert [simp]:
  "faults (snd (insertRepoName name d)) = faults d"
  "faults (snd (insertLocation repo offset d)) = faults d"
  "faults (insertThrough nid lid d) = faults d"
  "faults (snd (insertMetadata lid etag cn v d)) = faults d"
  "faults (snd (insertName mid name d)) = faults d"
  by (simp_all add: insertRepoName_def insertLocation_def insertThrough_def insertMetadata_def
      insertName_def deleteRepoNames_def deleteLocations_def deleteMetadata_def Let_def)

lemma Exec_healthy:
  "faults d = [] \<Longrightarrow> Exec stmt d = (Inr (fst (stmt d)), snd (stmt d))"
  by (simp add: Exec_def nextFault_healthy split: prod.splits)

lemma Exec_ran:
  assumes "Exec stmt d = (Inr i, d')"
  shows "\<exists>fs. stmt (d\<lparr>faults := fs\<rparr>) = (i, d')"
proof (cases "faults d")
  case Nil
  with assms have "stmt d = (i, d')"
    by (auto simp: Exec_def nextFault_def split: prod.splits)
  then have "stmt (d\<lparr>faults := faults d\<rparr>) = (i, d')" by simp
  then show ?thesis by blast
next
  case (Cons f fs)
  with assms have "stmt (d\<lparr>faults := fs\<rparr>) = (i, d')"
    by (auto simp: Exec_def nextFault_def split: prod.splits option.splits)
  then show ?thesis by blast
qed

lemma insertLocation_table:
  "fst (insertLocation repo offset d) = Suc (seq_location d)"
  "docker_search_location (snd (insertLocation repo offset d)) =
     filter (\<lambda>l. loc_location_id l \<notin>
                set (map loc_location_id
                       (filter (\<lambda>l. loc_repo l = repo \<and> loc_offset l = offset)
                          (docker_search_location d))))
       (docker_search_location d)
     @ [\<lparr>loc_location_id = Suc (seq_location d), loc_repo = repo, loc_offset = offset\<rparr>]"
  by (simp_all add: insertLocation_def deleteLocations_def deleteMetadata_def Let_def)

lemma insertLocation_locations:
  "(\<exists>l \<in> set (docker_search_location (snd (insertLocation repo offset d))).
      loc_location_id l = fst (insertLocation repo offset d) \<and> loc_repo l = repo
      \<and> loc_offset l = offset)
   \<and> (\<forall>l \<in> set (docker_search_location (snd (insertLocation repo offset d))).
        loc_repo l = repo \<and> loc_offset l = offset
          \<longrightarrow> loc_location_id l = fst (insertLocation repo offset d))"
  unfolding insertLocation_table by auto

lemma insertThrough_tables [simp]:
  "docker_search_location (insertThrough nid lid d) = docker_search_location d"
  "docker_search_metadata (insertThrough nid lid d) = docker_search_metadata d"
  "docker_search_name (insertThrough nid lid d) = docker_search_name d"
  by (simp_all add: insertThrough_def)

lemma insertMetadata_locations [simp]:
  "docker_search_location (snd (insertMetadata lid etag inp version d)) = docker_search_location d"
  by (simp add: insertMetadata_def deleteMetadata_def Let_def)

lemma insertMetadata_table:
  "fst (insertMetadata lid etag inp version d) = Suc (seq_metadata d)"
  "docker_search_metadata (snd (insertMetadata lid etag inp version d)) =
     filter (\<lambda>m. md_metadata_id m \<notin>
                set (map md_metadata_id
                       (filter (\<lambda>m. md_location_id m = lid \<and> md_version m = version)
                          (docker_search_metadata d))))
       (docker_search_metadata d)
     @ [\<lparr>md_metadata_id = Suc (seq_metadata d), md_location_id = lid, md_etag = etag,
          md_canonicalName = inp, md_version = version\<rparr>]"
  by (simp_all add: insertMetadata_def deleteMetadata_def Let_def)

lemma insertMetadata_metadata:
  "(\<exists>m \<in> set (docker_search_metadata (snd (insertMetadata lid etag inp version d))).
      md_metadata_id m = fst (insertMetadata lid etag inp version d) \<and> md_location_id m = lid
      \<and> md_version m = version \<and> md_canonicalName m = inp)
   \<and> (\<forall>m \<in> set (docker_search_metadata (snd (insertMetadata lid etag inp version d))).
        md_location_id m = lid \<and> md_version m = version \<longrightarrow> md_canonicalName m = inp)"
  unfolding insertMetadata_table by auto

lemma insertName_tables [simp]:
  "docker_search_location (snd (insertName mid inp d)) = docker_search_location d"
  "docker_search_metadata (snd (insertName mid inp d)) = docker_search_metadata d"
  by (simp_all add: insertName_def Let_def)

lemma insertName_names:
  "\<exists>n \<in> set (docker_search_name (snd (insertName mid inp d))). nm_metadata_id n = mid"
  by (simp add: insertName_def Let_def)

lemma dbInsert_inserted:
  assumes "dbInsert deps d sv inp etag = Returned (None, d')"
  shows "inserted d' (RepoURL sv) (RepoOffset sv) (Version_Format_MMPPre deps (Version sv)) inp"
proof -
  from assms obtain ref nid d1 lid d2 u d3 mid d4 u' where
    e2: "Exec (insertLocation (RepoURL sv) (RepoOffset sv)) d1 = (Inr lid, d2)"
    and e3: "Exec (\<lambda>d'. (0, insertThrough nid lid d')) d2 = (Inr u, d3)"
    and e4: "Exec (insertMetadata lid etag inp (Version_Format_MMPPre deps (Version sv))) d3
               = (Inr mid, d4)"
    and e5: "Exec (insertName mid inp) d4 = (Inr u', d')"
    by (auto simp: dbInsert_def split: prod.splits option.splits sum.splits)
  from Exec_ran [OF e2] obtain f2 where
    s2: "insertLocation (RepoURL sv) (RepoOffset sv) (d1\<lparr>faults := f2\<rparr>) = (lid, d2)" by blast
  from Exec_ran [OF e3] obtain f3 where
    s3: "d3 = insertThrough nid lid (d2\<lparr>faults := f3\<rparr>)" by auto
  from Exec_ran [OF e4] obtain f4 where
    s4: "insertMetadata lid etag inp (Version_Format_MMPPre deps (Version sv))
           (d3\<lparr>faults := f4\<rparr>) = (mid, d4)" by blast
  from Exec_ran [OF e5] obtain f5 where
    s5: "insertName mid inp (d4\<lparr>faults := f5\<rparr>) = (u', d')" by blast
  have loc3: "docker_search_location d3 = docker_search_location d2"
    using s3 by simp
  have loc4: "docker_search_location d4 = docker_search_location d3"
    using insertMetadata_locations
      [of lid etag inp "Version_Format_MMPPre deps (Version sv)" "d3\<lparr>faults := f4\<rparr>"]
    unfolding s4 by simp
  have loc5: "docker_search_location d' = docker_search_location d4"
    using insertName_tables(1) [of mid inp "d4\<lparr>faults := f5\<rparr>"] unfolding s5 by simp
  have md5: "docker_search_metadata d' = docker_search_metadata d4"
    using insertName_tables(2) [of mid inp "d4\<lparr>faults := f5\<rparr>"] unfolding s5 by simp
  have nm5: "\<exists>n \<in> set (docker_search_name d'). nm_metadata_id n = mid"
    using insertName_names [of mid inp "d4\<lparr>faults := f5\<rparr>"] unfolding s5 by simp
  have L: "(\<exists>l \<in> set (docker_search_location d2).
            loc_location_id l = lid \<and> loc_repo l = RepoURL sv \<and> loc_offset l = RepoOffset sv)
       \<and> (\<forall>l \<in> set (docker_search_location d2).
            loc_repo l = RepoURL sv \<and> loc_offset l = RepoOffset sv \<longrightarrow> loc_location_id l = lid)"
    using insertLocation_locations [of "RepoURL sv" "RepoOffset sv" "d1\<lparr>faults := f2\<rparr>"]
    unfolding s2 by simp
  have M: "(\<exists>m \<in> set (docker_search_metadata d4).
            md_metadata_id m = mid \<and> md_location_id m = lid
            \<and> md_version m = Version_Format_MMPPre deps (Version sv)
            \<and> md_canonicalName m = inp)
       \<and> (\<forall>m \<in> set (docker_search_metadata d4).
            md_location_id m = lid \<and> md_version m = Version_Format_MMPPre deps (Version sv)
              \<longrightarrow> md_canonicalName m = inp)"
    using insertMetadata_metadata
      [of lid etag inp "Version_Format_MMPPre deps (Version sv)" "d3\<lparr>faults := f4\<rparr>"]
    unfolding s4 by simp
  show ?thesis
    unfolding inserted_def
    apply (rule exI [of _ lid], rule exI [of _ mid])
    using L M nm5 unfolding loc5 loc4 loc3 md5 by blast
qed

lemma set_selectOnSV:
  "set (selectOnSV d repo offset version) =
     {(md_canonicalName m, nm_name n) | n m l.
        n \<in> set (docker_search_name d) \<and> m \<in> set (docker_search_metadata d)
        \<and> l \<in> set (docker_search_location d)
        \<and> nm_metadata_id n = md_metadata_id m \<and> md_location_id m = loc_location_id l
        \<and> loc_repo l = repo \<and> loc_offset l = offset \<and> md_version m = version}"
  by (auto simp: selectOnSV_def split: if_splits)

lemma inserted_selectOnSV:
  assumes "inserted d repo offset version inp"
  shows "selectOnSV d repo offset version \<noteq> []
       \<and> (\<forall>row \<in> set (selectOnSV d repo offset version). fst row = inp)"
proof -
  from assms obtain lid mid l m n where
    l: "l \<in> set (docker_search_location d)" "loc_location_id l = lid" "loc_repo l = repo"
       "loc_offset l = offset"
    and lu: "\<forall>l \<in> set (docker_search_location d).
           loc_repo l = repo \<and> loc_offset l = offset \<longrightarrow> loc_location_id l = lid"
    and m: "m \<in> set (docker_search_metadata d)" "md_metadata_id m = mid" "md_location_id m = lid"
       "md_version m = version" "md_canonicalName m = inp"
    and mu: "\<forall>m \<in> set (docker_search_metadata d).
           md_location_id m = lid \<and> md_version m = version \<longrightarrow> md_canonicalName m = inp"
    and n: "n \<in> set (docker_search_name d)" "nm_metadata_id n = mid"
    unfolding inserted_def by blast
  have "(md_canonicalName m, nm_name n) \<in> set (selectOnSV d repo offset version)"
    unfolding set_selectOnSV using l m n by blast
  then have ne: "selectOnSV d repo offset version \<noteq> []" by auto
  have "\<forall>row \<in> set (selectOnSV d repo offset version). fst row = inp"
    unfolding set_selectOnSV using lu mu by fastforce
  with ne show ?thesis by simp
qed

lemma dbQueryOnSV_inserted:
  assumes "inserted d (RepoURL sv) (RepoOffset sv) (Version_String deps (Version sv)) inp"
    and "faults d = []"
  shows "\<exists>ins. dbQueryOnSV deps d sv = (((inp, ins), None), d)"
proof -
  let ?rows = "selectOnSV d (RepoURL sv) (RepoOffset sv) (Version_String deps (Version sv))"
  from inserted_selectOnSV [OF assms(1)] have ne: "?rows \<noteq> []"
    and all: "\<forall>row \<in> set ?rows. fst row = inp" by auto
  from ne have "last ?rows \<in> set ?rows" by simp
  with all have "fst (last ?rows) = inp" by blast
  with ne assms(2) show ?thesis
    by (simp add: dbQueryOnSV_def nextFault_healthy Let_def)
qed

lemma dbInsert_healthy:
  assumes "faults d = []" and "snd (reference_ParseNamed deps inp) = None"
  shows "\<exists>d'. dbInsert deps d sv inp etag = Returned (None, d') \<and> faults d' = []"
proof -
  obtain ref where "reference_ParseNamed deps inp = (ref, None)"
    using assms(2) by (cases "reference_ParseNamed deps inp") auto
  with assms(1) show ?thesis
    by (simp add: dbInsert_def Exec_healthy split: prod.splits)
qed

lemmas db_eval =
  dbInsert_def Exec_def nextFault_def insertRepoName_def insertLocation_def insertThrough_def
  insertMetadata_def insertName_def deleteRepoNames_def deleteLocations_def deleteMetadata_def
  dbQueryOnName_def dbQueryOnSL_def dbQueryOnSV_def dbAddNames_def selectOnName_def
  selectOnSL_def selectOnSV_def selectMetadataId_def newDatabase_def Let_def

lemmas ex_eval =
  exDeps_def exRegistry_def exMetadata_def zeroMetadata_def newNameCache_def exSourceVersion_def
  exVersion_def exSemvParse_def exVersionString_def exFormatMMPPre_def zeroVersion_def
  zeroSourceVersion_def

lemma exInsert:
  "Insert exDeps newNameCache (exSourceVersion ''sub'') ''repo/img:1.0'' ''e1''
     = Returned (None, exInsertedCache)"
  by (simp add: Insert_def db_eval ex_eval exInsertedCache_def)

text \<open>
  Claim C10. On a connection that answers every statement, for every image name that
  \<^verbatim>\<open>reference.ParseNamed\<close> accepts and every \<^verbatim>\<open>SourceVersion\<close> whose full version
  string equals its \<^verbatim>\<open>major.minor.patch[-prerelease]\<close> form (no build metadata):
  \<^verbatim>\<open>Insert(sv, in, etag)\<close> returns no error, and \<^verbatim>\<open>GetImageName(sv)\<close> on the cache it
  leaves returns \<^verbatim>\<open>in\<close> with no error and leaves the cache as it is: no registry call
  is made and the registry client is untouched.
\<close>

theorem Insert_then_GetImageName:
  assumes healthy: "faults (db nc) = []"
    and valid: "snd (reference_ParseNamed deps inp) = None"
    and no_meta: "Version_String deps (Version sv) = Version_Format_MMPPre deps (Version sv)"
  shows "\<exists>nc'. Insert deps nc sv inp etag = Returned (None, nc')
            \<and> GetImageName deps rc nc' sv = Returned ((inp, None), nc')
            \<and> registryCalls nc' = registryCalls nc
            \<and> registryClient nc' = registryClient nc"
proof -
  from dbInsert_healthy [OF healthy valid] obtain d' where
    ins: "dbInsert deps (db nc) sv inp etag = Returned (None, d')" and h: "faults d' = []"
    by blast
  from dbInsert_inserted [OF ins] no_meta
  have "inserted d' (RepoURL sv) (RepoOffset sv) (Version_String deps (Version sv)) inp"
    by simp
  from dbQueryOnSV_inserted [OF this h] obtain names where
    q: "dbQueryOnSV deps d' sv = (((inp, names), None), d')" by blast
  have "Insert deps nc sv inp etag = Returned (None, nc\<lparr>db := d'\<rparr>)"
    using ins by (simp add: Insert_def)
  moreover have "GetImageName deps rc (nc\<lparr>db := d'\<rparr>) sv = Returned ((inp, None), nc\<lparr>db := d'\<rparr>)"
    using q by (simp add: GetImageName_def)
  ultimately show ?thesis by simp
qed

theorem Insert_then_GetImageName_witness:
  "Insert exDeps newNameCache (exSourceVersion ''sub'') ''repo/img:1.0'' ''e1''
     = Returned (None, exInsertedCache)
   \<and> GetImageName exDeps exRegistry exInsertedCache (exSourceVersion ''sub'')
     = Returned ((''repo/img:1.0'', None), exInsertedCache)"
proof -
  have h: "faults (db newNameCache) = []" by (simp add: newNameCache_def newDatabase_def)
  have v: "snd (reference_ParseNamed exDeps ''repo/img:1.0'') = None" by (simp add: exDeps_def)
  have m: "Version_String exDeps (Version (exSourceVersion ''sub''))
             = Version_Format_MMPPre exDeps (Version (exSourceVersion ''sub''))"
    by (simp add: ex_eval)
  from Insert_then_GetImageName [OF h v m, of "''e1''" exRegistry] exInsert
  show ?thesis by auto
qed

subsection \<open>\<^verbatim>\<open>GetSourceVersion\<close>\<close>

lemma isNotModifiedErr_iff: "isNotModifiedErr e \<longleftrightarrow> e = NotModifiedErr"
  by (cases e) simp_all

lemma seq_metadata_insert [simp]:
  "seq_metadata (snd (insertRepoName name d)) = seq_metadata d"
  "seq_metadata (snd (insertLocation repo offset d)) = seq_metadata d"
  "seq_metadata (insertThrough nid lid d) = seq_metadata d"
  "seq_metadata (snd (insertMetadata lid etag cn v d)) = Suc (seq_metadata d)"
  "seq_metadata (snd (insertName mid name d)) = seq_metadata d"
  by (simp_all add: insertRepoName_def insertLocation_def insertThrough_def insertMetadata_def
      insertName_def deleteRepoNames_def deleteLocations_def deleteMetadata_def Let_def)

lemma dbInsert_healthy_count:
  assumes "faults d = []" and "snd (reference_ParseNamed deps inp) = None"
  shows "\<exists>d'. dbInsert deps d sv inp etag = Returned (None, d') \<and> faults d' = []
            \<and> seq_metadata d' = Suc (seq_metadata d)"
proof -
  obtain ref where "reference_ParseNamed deps inp = (ref, None)"
    using assms(2) by (cases "reference_ParseNamed deps inp") auto
  with assms(1) show ?thesis
    by (simp add: dbInsert_def Exec_healthy split: prod.splits)
qed

lemma dbInsert_invalid_name:
  assumes "snd (reference_ParseNamed deps inp) = Some e"
  shows "dbInsert deps d sv inp etag = Returned (Some (Errorf_for e inp), d)"
  using assms by (cases "reference_ParseNamed deps inp") (simp add: dbInsert_def)

lemma Exec_insertName_seq:
  "seq_metadata (snd (Exec (insertName i n) d)) = seq_metadata d"
  "faults d = [] \<Longrightarrow> faults (snd (Exec (insertName i n) d)) = []"
  by (auto simp: Exec_def nextFault_def insertName_def Let_def
      split: prod.splits option.splits list.splits)

lemma addNames_seq_metadata: "seq_metadata (snd (addNames d i ns)) = seq_metadata d"
proof (induction ns arbitrary: d)
  case Nil
  show ?case by simp
next
  case (Cons n ns)
  show ?case
  proof (cases "Exec (insertName i n) d")
    case (Pair r d1)
    with Exec_insertName_seq(1) [of i n d] have s: "seq_metadata d1 = seq_metadata d" by simp
    show ?thesis
    proof (cases r)
      case (Inl e)
      with Pair s show ?thesis by simp
    next
      case (Inr u)
      with Pair s Cons.IH [of d1] show ?thesis by simp
    qed
  qed
qed

lemma dbAddNames_seq_metadata: "seq_metadata (snd (dbAddNames d cn ins)) = seq_metadata d"
  by (auto simp: dbAddNames_def nextFault_def addNames_seq_metadata
      split: prod.splits option.splits list.splits)

lemma lookupCached_cold:
  assumes "faults d = []" and "selectOnName d inp = []"
  shows "lookupCached deps d inp = (Inr ([], zeroSourceVersion), d)"
  using assms by (simp add: lookupCached_def dbQueryOnName_def nextFault_healthy)

lemma lookupCached_row:
  assumes "faults d = []" and "selectOnName d inp = (etag, repo, offset, version, cname) # rest"
  shows "lookupCached deps d inp =
           (case semv_Parse deps version of
              (v, Some e) \<Rightarrow> (Inl (zeroSourceVersion, e), d)
            | (v, None) \<Rightarrow>
                (Inr (etag, \<lparr>RepoURL = repo, RepoOffset = offset, Version = v\<rparr>), d))"
  using assms
  by (simp add: lookupCached_def dbQueryOnName_def nextFault_healthy makeSourceVersion_def
      split: prod.splits option.splits)

lemma GetSourceVersion_early:
  assumes "lookupCached deps (db nc) inp = (Inl (sv, e), d1)"
  shows "GetSourceVersion deps rc nc inp = Returned ((sv, Some e), nc\<lparr>db := d1\<rparr>)"
  using assms by (simp add: GetSourceVersion_def)

lemma GetSourceVersion_answered_error:
  assumes "lookupCached deps (db nc) inp = (Inr (etag, sv0), d1)"
    and "GetImageMetadata rc (registryClient nc) inp etag = ((md, Some e), r1)"
  shows "GetSourceVersion deps rc nc inp =
           Returned ((sv0, if e = NotModifiedErr then None else Some e),
             nc\<lparr>registryClient := r1, db := d1,
                registryCalls := registryCalls nc @ [GetImageMetadataCall inp etag (Some e)]\<rparr>)"
  using assms by (simp add: GetSourceVersion_def isNotModifiedErr_iff)

lemma NameCache_same_db: "nc\<lparr>registryClient := r, db := db nc, registryCalls := cs\<rparr>
   = nc\<lparr>registryClient := r, registryCalls := cs\<rparr>"
  by (cases nc) simp

lemma GetSourceVersion_fresh_insert:
  assumes look: "lookupCached deps (db nc) inp = (Inr (etag, sv0), d1)"
    and healthy: "faults d1 = []"
    and answer: "GetImageMetadata rc (registryClient nc) inp etag = ((md, None), r1)"
    and labels: "snd (SourceVersionFromLabels deps (Labels md)) = None"
    and valid: "snd (reference_ParseNamed deps (CanonicalName md)) = None"
  shows "\<exists>d2. dbInsert deps d1 (fst (SourceVersionFromLabels deps (Labels md)))
                 (CanonicalName md) (Etag md) = Returned (None, d2)
           \<and> GetSourceVersion deps rc nc inp =
               Returned ((fst (SourceVersionFromLabels deps (Labels md)),
                          fst (dbAddNames d2 (CanonicalName md) (AllNames md))),
                 nc\<lparr>registryClient := r1,
                    db := snd (dbAddNames d2 (CanonicalName md) (AllNames md)),
                    registryCalls := registryCalls nc @ [GetImageMetadataCall inp etag None]\<rparr>)"
proof -
  obtain newSV where l: "SourceVersionFromLabels deps (Labels md) = (newSV, None)"
    using labels by (cases "SourceVersionFromLabels deps (Labels md)") auto
  from dbInsert_healthy_count [OF healthy valid] obtain d2 where
    ins: "dbInsert deps d1 newSV (CanonicalName md) (Etag md) = Returned (None, d2)" by blast
  obtain aerr d3 where add: "dbAddNames d2 (CanonicalName md) (AllNames md) = (aerr, d3)"
    by (metis surj_pair)
  from look answer l ins add show ?thesis by (simp add: GetSourceVersion_def)
qed

lemma GetSourceVersion_fresh_rejected:
  assumes look: "lookupCached deps (db nc) inp = (Inr (etag, sv0), d1)"
    and answer: "GetImageMetadata rc (registryClient nc) inp etag = ((md, None), r1)"
    and rejected: "\<not> (snd (SourceVersionFromLabels deps (Labels md)) = None
                      \<and> snd (reference_ParseNamed deps (CanonicalName md)) = None)"
  shows "\<exists>e. GetSourceVersion deps rc nc inp =
               Returned ((sv0, Some e),
                 nc\<lparr>registryClient := r1, db := d1,
                    registryCalls := registryCalls nc @ [GetImageMetadataCall inp etag None]\<rparr>)"
proof (cases "SourceVersionFromLabels deps (Labels md)")
  case (Pair newSV lerr)
  show ?thesis
  proof (cases lerr)
    case (Some e)
    with Pair look answer show ?thesis by (simp add: GetSourceVersion_def)
  next
    case None
    with Pair rejected obtain e where "snd (reference_ParseNamed deps (CanonicalName md)) = Some e"
      by auto
    from dbInsert_invalid_name [OF this]
    have "dbInsert deps d1 newSV (CanonicalName md) (Etag md)
            = Returned (Some (Errorf_for e (CanonicalName md)), d1)" .
    with Pair None look answer show ?thesis by (simp add: GetSourceVersion_def)
  qed
qed

text \<open>
  Claim C6, as amended. On a connection that answers every statement:
  (1) when the cache holds no row for the image name, \<^verbatim>\<open>GetSourceVersion\<close> returns after
  exactly one call on the registry client, \<^verbatim>\<open>GetImageMetadata\<close> with the empty etag (the
  registry is left in the state after that one call). When the registry answered with
  metadata whose labels give a \<^verbatim>\<open>SourceVersion\<close> and whose canonical name is a valid
  image reference, exactly one metadata row is inserted (the metadata sequence counts the
  inserts): the write is \<^verbatim>\<open>dbInsert\<close> of that \<^verbatim>\<open>SourceVersion\<close> under the canonical
  name and the etag of the answer, followed by \<^verbatim>\<open>dbAddNames\<close>, and that
  \<^verbatim>\<open>SourceVersion\<close> is returned. When the labels or the canonical name are rejected, or
  the registry answered with an error, nothing is inserted and the database is as it was;
  an error of the registry other than "not modified" is returned;
  (2) when the cache holds a row whose version parses, the registry is asked once with the
  cached etag; if it answers "not modified", the result is the \<^verbatim>\<open>SourceVersion\<close> built
  from the cached repository, offset and version, with no error, and the database is
  unchanged; if it answers with any other error, that error is returned with the same
  \<^verbatim>\<open>SourceVersion\<close>, the database unchanged;
  (3) when the cache holds a row whose version does not parse, the error of the parser is
  returned and the registry is not asked.
\<close>

theorem GetSourceVersion_cold_and_not_modified:
  assumes healthy: "faults (db nc) = []"
  shows
   "(\<forall>md answer r1.
        selectOnName (db nc) inp = []
      \<and> GetImageMetadata rc (registryClient nc) inp [] = ((md, answer), r1)
      \<longrightarrow> (\<exists>res nc'.
            GetSourceVersion deps rc nc inp = Returned (res, nc')
          \<and> registryClient nc' = r1
          \<and> registryCalls nc' = registryCalls nc @ [GetImageMetadataCall inp [] answer]
          \<and> seq_metadata (db nc') =
              (if answer = None \<and> snd (SourceVersionFromLabels deps (Labels md)) = None
                  \<and> snd (reference_ParseNamed deps (CanonicalName md)) = None
               then Suc (seq_metadata (db nc)) else seq_metadata (db nc))
          \<and> (answer = None \<and> snd (SourceVersionFromLabels deps (Labels md)) = None
                \<and> snd (reference_ParseNamed deps (CanonicalName md)) = None
              \<longrightarrow> (\<exists>d2. dbInsert deps (db nc) (fst (SourceVersionFromLabels deps (Labels md)))
                            (CanonicalName md) (Etag md) = Returned (None, d2)
                      \<and> res = (fst (SourceVersionFromLabels deps (Labels md)),
                               fst (dbAddNames d2 (CanonicalName md) (AllNames md)))
                      \<and> db nc' = snd (dbAddNames d2 (CanonicalName md) (AllNames md))))
          \<and> (answer = None \<and> \<not> (snd (SourceVersionFromLabels deps (Labels md)) = None
                \<and> snd (reference_ParseNamed deps (CanonicalName md)) = None)
              \<longrightarrow> fst res = zeroSourceVersion \<and> snd res \<noteq> None \<and> db nc' = db nc)
          \<and> (\<forall>e. answer = Some e \<longrightarrow>
                 res = (zeroSourceVersion, if e = NotModifiedErr then None else Some e)
               \<and> db nc' = db nc)))
    \<and> (\<forall>etag repo offset version cname rest v md e r1.
          selectOnName (db nc) inp = (etag, repo, offset, version, cname) # rest
        \<and> semv_Parse deps version = (v, None)
        \<and> GetImageMetadata rc (registryClient nc) inp etag = ((md, Some e), r1)
        \<longrightarrow> GetSourceVersion deps rc nc inp =
              Returned ((\<lparr>RepoURL = repo, RepoOffset = offset, Version = v\<rparr>,
                         if e = NotModifiedErr then None else Some e),
                nc\<lparr>registryClient := r1,
                   registryCalls :=
                     registryCalls nc @ [GetImageMetadataCall inp etag (Some e)]\<rparr>))
    \<and> (\<forall>etag repo offset version cname rest v e.
          selectOnName (db nc) inp = (etag, repo, offset, version, cname) # rest
        \<and> semv_Parse deps version = (v, Some e)
        \<longrightarrow> GetSourceVersion deps rc nc inp = Returned ((zeroSourceVersion, Some e), nc))"
proof (intro conjI)
  show "\<forall>md answer r1.
        selectOnName (db nc) inp = []
      \<and> GetImageMetadata rc (registryClient nc) inp [] = ((md, answer), r1)
      \<longrightarrow> (\<exists>res nc'.
            GetSourceVersion deps rc nc inp = Returned (res, nc')
          \<and> registryClient nc' = r1
          \<and> registryCalls nc' = registryCalls nc @ [GetImageMetadataCall inp [] answer]
          \<and> seq_metadata (db nc') =
              (if answer = None \<and> snd (SourceVersionFromLabels deps (Labels md)) = None
                  \<and> snd (reference_ParseNamed deps (CanonicalName md)) = None
               then Suc (seq_metadata (db nc)) else seq_metadata (db nc))
          \<and> (answer = None \<and> snd (SourceVersionFromLabels deps (Labels md)) = None
                \<and> snd (reference_ParseNamed deps (CanonicalName md)) = None
              \<longrightarrow> (\<exists>d2. dbInsert deps (db nc) (fst (SourceVersionFromLabels deps (Labels md)))
                            (CanonicalName md) (Etag md) = Returned (None, d2)
                      \<and> res = (fst (SourceVersionFromLabels deps (Labels md)),
                               fst (dbAddNames d2 (CanonicalName md) (AllNames md)))
                      \<and> db nc' = snd (dbAddNames d2 (CanonicalName md) (AllNames md))))
          \<and> (answer = None \<and> \<not> (snd (SourceVersionFromLabels deps (Labels md)) = None
                \<and> snd (reference_ParseNamed deps (CanonicalName md)) = None)
              \<longrightarrow> fst res = zeroSourceVersion \<and> snd res \<noteq> None \<and> db nc' = db nc)
          \<and> (\<forall>e. answer = Some e \<longrightarrow>
                 res = (zeroSourceVersion, if e = NotModifiedErr then None else Some e)
               \<and> db nc' = db nc))"
  proof (intro allI impI)
    fix md answer r1
    assume h: "selectOnName (db nc) inp = []
      \<and> GetImageMetadata rc (registryClient nc) inp [] = ((md, answer), r1)"
    then have cold: "selectOnName (db nc) inp = []"
      and a: "GetImageMetadata rc (registryClient nc) inp [] = ((md, answer), r1)" by simp_all
    note look = lookupCached_cold [OF healthy cold, of deps]
    let ?ok = "snd (SourceVersionFromLabels deps (Labels md)) = None
                  \<and> snd (reference_ParseNamed deps (CanonicalName md)) = None"
    show "\<exists>res nc'.
            GetSourceVersion deps rc nc inp = Returned (res, nc')
          \<and> registryClient nc' = r1
          \<and> registryCalls nc' = registryCalls nc @ [GetImageMetadataCall inp [] answer]
          \<and> seq_metadata (db nc') =
              (if answer = None \<and> ?ok
               then Suc (seq_metadata (db nc)) else seq_metadata (db nc))
          \<and> (answer = None \<and> ?ok
              \<longrightarrow> (\<exists>d2. dbInsert deps (db nc) (fst (SourceVersionFromLabels deps (Labels md)))
                            (CanonicalName md) (Etag md) = Returned (None, d2)
                      \<and> res = (fst (SourceVersionFromLabels deps (Labels md)),
                               fst (dbAddNames d2 (CanonicalName md) (AllNames md)))
                      \<and> db nc' = snd (dbAddNames d2 (CanonicalName md) (AllNames md))))
          \<and> (answer = None \<and> \<not> ?ok
              \<longrightarrow> fst res = zeroSourceVersion \<and> snd res \<noteq> None \<and> db nc' = db nc)
          \<and> (\<forall>e. answer = Some e \<longrightarrow>
                 res = (zeroSourceVersion, if e = NotModifiedErr then None else Some e)
               \<and> db nc' = db nc)"
    proof (cases answer)
      case (Some e)
      from GetSourceVersion_answered_error [OF look a [unfolded Some]] Some
      show ?thesis by simp
    next
      case None
      show ?thesis
      proof (cases ?ok)
        case True
        then have labels: "snd (SourceVersionFromLabels deps (Labels md)) = None"
          and valid: "snd (reference_ParseNamed deps (CanonicalName md)) = None" by simp_all
        from GetSourceVersion_fresh_insert [OF look healthy a [unfolded None] labels valid]
        obtain d2 where
          ins: "dbInsert deps (db nc) (fst (SourceVersionFromLabels deps (Labels md)))
                 (CanonicalName md) (Etag md) = Returned (None, d2)"
          and run: "GetSourceVersion deps rc nc inp =
               Returned ((fst (SourceVersionFromLabels deps (Labels md)),
                          fst (dbAddNames d2 (CanonicalName md) (AllNames md))),
                 nc\<lparr>registryClient := r1,
                    db := snd (dbAddNames d2 (CanonicalName md) (AllNames md)),
                    registryCalls := registryCalls nc @ [GetImageMetadataCall inp [] None]\<rparr>)"
          by blast
        from dbInsert_healthy_count [OF healthy valid,
            of "fst (SourceVersionFromLabels deps (Labels md))" "Etag md"] ins
        have "seq_metadata d2 = Suc (seq_metadata (db nc))" by auto
        then have seq: "seq_metadata (snd (dbAddNames d2 (CanonicalName md) (AllNames md)))
            = Suc (seq_metadata (db nc))"
          by (simp add: dbAddNames_seq_metadata)
        from run ins seq None True show ?thesis by auto
      next
        case False
        from GetSourceVersion_fresh_rejected [OF look a [unfolded None] False]
        obtain e where "GetSourceVersion deps rc nc inp =
               Returned ((zeroSourceVersion, Some e),
                 nc\<lparr>registryClient := r1, db := db nc,
                    registryCalls := registryCalls nc @ [GetImageMetadataCall inp [] None]\<rparr>)"
          by blast
        with None False show ?thesis by auto
      qed
    qed
  qed
next
  show "\<forall>etag repo offset version cname rest v md e r1.
          selectOnName (db nc) inp = (etag, repo, offset, version, cname) # rest
        \<and> semv_Parse deps version = (v, None)
        \<and> GetImageMetadata rc (registryClient nc) inp etag = ((md, Some e), r1)
        \<longrightarrow> GetSourceVersion deps rc nc inp =
              Returned ((\<lparr>RepoURL = repo, RepoOffset = offset, Version = v\<rparr>,
                         if e = NotModifiedErr then None else Some e),
                nc\<lparr>registryClient := r1,
                   registryCalls :=
                     registryCalls nc @ [GetImageMetadataCall inp etag (Some e)]\<rparr>)"
  proof (intro allI impI)
    fix etag repo offset version cname rest v md e r1
    assume h: "selectOnName (db nc) inp = (etag, repo, offset, version, cname) # rest
        \<and> semv_Parse deps version = (v, None)
        \<and> GetImageMetadata rc (registryClient nc) inp etag = ((md, Some e), r1)"
    then have row: "selectOnName (db nc) inp = (etag, repo, offset, version, cname) # rest"
      and p: "semv_Parse deps version = (v, None)"
      and a: "GetImageMetadata rc (registryClient nc) inp etag = ((md, Some e), r1)"
      by simp_all
    from lookupCached_row [OF healthy row, of deps] p
    have l: "lookupCached deps (db nc) inp =
        (Inr (etag, \<lparr>RepoURL = repo, RepoOffset = offset, Version = v\<rparr>), db nc)" by simp
    from GetSourceVersion_answered_error [OF l a]
    show "GetSourceVersion deps rc nc inp =
              Returned ((\<lparr>RepoURL = repo, RepoOffset = offset, Version = v\<rparr>,
                         if e = NotModifiedErr then None else Some e),
                nc\<lparr>registryClient := r1,
                   registryCalls :=
                     registryCalls nc @ [GetImageMetadataCall inp etag (Some e)]\<rparr>)"
      by (simp add: NameCache_same_db)
  qed
next
  show "\<forall>etag repo offset version cname rest v e.
          selectOnName (db nc) inp = (etag, repo, offset, version, cname) # rest
        \<and> semv_Parse deps version = (v, Some e)
        \<longrightarrow> GetSourceVersion deps rc nc inp = Returned ((zeroSourceVersion, Some e), nc)"
  proof (intro allI impI)
    fix etag repo offset version cname rest v e
    assume h: "selectOnName (db nc) inp = (etag, repo, offset, version, cname) # rest
        \<and> semv_Parse deps version = (v, Some e)"
    then have row: "selectOnName (db nc) inp = (etag, repo, offset, version, cname) # rest"
      and p: "semv_Parse deps version = (v, Some e)" by simp_all
    from lookupCached_row [OF healthy row, of deps] p
    have l: "lookupCached deps (db nc) inp = (Inl (zeroSourceVersion, e), db nc)" by simp
    from GetSourceVersion_early [OF l, of rc]
    show "GetSourceVersion deps rc nc inp = Returned ((zeroSourceVersion, Some e), nc)"
      by simp
  qed
qed

lemma exColdAnswer:
  "GetImageMetadata exRegistry (registryClient newNameCache) ''repo/img:1.0'' []
     = ((exMetadata, None), 1)"
  by (simp add: exRegistry_def newNameCache_def)

theorem GetSourceVersion_cold_and_not_modified_witness:
  "(\<exists>err nc'. GetSourceVersion exDeps exRegistry newNameCache ''repo/img:1.0''
                 = Returned ((\<lparr>RepoURL = ''github.com/x/y'', RepoOffset = ''sub'',
                                Version = exVersion\<lparr>Meta := ''cabba9e''\<rparr>\<rparr>, err), nc')
      \<and> registryClient nc' = 1
      \<and> registryCalls nc' = [GetImageMetadataCall ''repo/img:1.0'' [] None]
      \<and> seq_metadata (db nc') = 1)
   \<and> GetSourceVersion exDeps exRegistry exInsertedCache ''repo/img:1.0''
       = Returned ((exSourceVersion ''sub'', None),
           exInsertedCache\<lparr>registryClient := 1,
             registryCalls := [GetImageMetadataCall ''repo/img:1.0'' ''e1''
                                 (Some NotModifiedErr)]\<rparr>)
   \<and> GetSourceVersion exDeps exRegistry newNameCache ''other/img:1.0''
       = Returned ((zeroSourceVersion, Some (External ''manifest unknown'')),
           newNameCache\<lparr>registryClient := 1,
             registryCalls := [GetImageMetadataCall ''other/img:1.0'' []
                                 (Some (External ''manifest unknown''))]\<rparr>)"
proof -
  have h: "faults (db newNameCache) = []" by (simp add: newNameCache_def newDatabase_def)
  have h2: "faults (db exInsertedCache) = []" by (simp add: exInsertedCache_def)
  have cold: "selectOnName (db newNameCache) ''repo/img:1.0'' = []"
    by (simp add: newNameCache_def newDatabase_def selectOnName_def)
  have valid: "snd (reference_ParseNamed exDeps (CanonicalName exMetadata)) = None"
    by (simp add: exDeps_def exMetadata_def)
  have labels: "SourceVersionFromLabels exDeps (Labels exMetadata) =
      (\<lparr>RepoURL = ''github.com/x/y'', RepoOffset = ''sub'',
        Version = exVersion\<lparr>Meta := ''cabba9e''\<rparr>\<rparr>, None)"
    by (simp add: SourceVersionFromLabels_def ex_eval)
  have first: "\<exists>err nc'. GetSourceVersion exDeps exRegistry newNameCache ''repo/img:1.0''
                 = Returned ((\<lparr>RepoURL = ''github.com/x/y'', RepoOffset = ''sub'',
                                Version = exVersion\<lparr>Meta := ''cabba9e''\<rparr>\<rparr>, err), nc')
      \<and> registryClient nc' = 1
      \<and> registryCalls nc' = [GetImageMetadataCall ''repo/img:1.0'' [] None]
      \<and> seq_metadata (db nc') = 1"
    using GetSourceVersion_cold_and_not_modified
      [OF h, of "''repo/img:1.0''" exRegistry exDeps, THEN conjunct1, rule_format,
       OF conjI [OF cold exColdAnswer]]
      labels valid
    by (auto simp: newNameCache_def newDatabase_def)
  have row: "selectOnName (db exInsertedCache) ''repo/img:1.0''
      = (''e1'', ''github.com/x/y'', ''sub'', ''1.2.3'', ''repo/img:1.0'') # []"
    by (simp add: exInsertedCache_def selectOnName_def)
  have parse: "semv_Parse exDeps ''1.2.3'' = (exVersion, None)" by (simp add: ex_eval)
  have nm: "GetImageMetadata exRegistry (registryClient exInsertedCache) ''repo/img:1.0'' ''e1''
      = ((zeroMetadata, Some NotModifiedErr), 1)"
    by (simp add: exRegistry_def exInsertedCache_def)
  have second: "GetSourceVersion exDeps exRegistry exInsertedCache ''repo/img:1.0''
       = Returned ((exSourceVersion ''sub'', None),
           exInsertedCache\<lparr>registryClient := 1,
             registryCalls := [GetImageMetadataCall ''repo/img:1.0'' ''e1''
                                 (Some NotModifiedErr)]\<rparr>)"
    using GetSourceVersion_cold_and_not_modified
      [OF h2, of "''repo/img:1.0''" exRegistry exDeps, THEN conjunct2, THEN conjunct1,
       rule_format, OF conjI [OF row conjI [OF parse nm]]]
    by (simp add: exSourceVersion_def exInsertedCache_def)
  have cold3: "selectOnName (db newNameCache) ''other/img:1.0'' = []"
    by (simp add: newNameCache_def newDatabase_def selectOnName_def)
  have ans3: "GetImageMetadata exRegistry (registryClient newNameCache) ''other/img:1.0'' []
      = ((zeroMetadata, Some (External ''manifest unknown'')), 1)"
    by (simp add: exRegistry_def newNameCache_def)
  have third: "GetSourceVersion exDeps exRegistry newNameCache ''other/img:1.0''
       = Returned ((zeroSourceVersion, Some (External ''manifest unknown'')),
           newNameCache\<lparr>registryClient := 1,
             registryCalls := [GetImageMetadataCall ''other/img:1.0'' []
                                 (Some (External ''manifest unknown''))]\<rparr>)"
    by (simp add: GetSourceVersion_def lookupCached_def makeSourceVersion_def db_eval ex_eval)
  from first second third show ?thesis by blast
qed

text \<open>
  The claim as it was stated (a cold cache always gets exactly one metadata insert) fails
  when the registry answers with an error: the cache holds no row for
  \<^verbatim>\<open>other/img:1.0\<close>, the registry does not know the image, and \<^verbatim>\<open>GetSourceVersion\<close>
  returns that error with the database as it was, the metadata table still empty.
\<close>

theorem GetSourceVersion_cold_registry_error_counterexample:
  "selectOnName (db newNameCache) ''other/img:1.0'' = []
   \<and> GetSourceVersion exDeps exRegistry newNameCache ''other/img:1.0''
       = Returned ((zeroSourceVersion, Some (External ''manifest unknown'')),
           newNameCache\<lparr>registryClient := 1,
             registryCalls := [GetImageMetadataCall ''other/img:1.0'' []
                                 (Some (External ''manifest unknown''))]\<rparr>)
   \<and> docker_search_metadata (db newNameCache) = []
   \<and> seq_metadata (db newNameCache) = 0"
  by (simp add: GetSourceVersion_def lookupCached_def makeSourceVersion_def db_eval ex_eval)

subsection \<open>\<^verbatim>\<open>GetImageName\<close> and the harvest\<close>

lemma harvestTags_pullAll:
  "harvestTags deps rc nc ref ts = pullAll deps rc nc (taggedNames deps ref ts)"
proof (induction ts arbitrary: nc)
  case Nil
  show ?case by (simp add: taggedNames_def)
next
  case (Cons t ts)
  then show ?case
    by (auto simp: taggedNames_def split: prod.splits option.splits outcome.splits)
qed

lemma harvestRepos_pullRepos:
  assumes "\<forall>r \<in> set repos. snd (reference_ParseNamed deps r) = None"
  shows "harvestRepos deps rc nc (repos @ later) =
           (case pullRepos deps rc nc repos of
              Panicked \<Rightarrow> Panicked
            | Returned nc1 \<Rightarrow> harvestRepos deps rc nc1 later)"
  using assms
proof (induction repos arbitrary: nc)
  case Nil
  show ?case by simp
next
  case (Cons r repos)
  obtain ref where pn: "reference_ParseNamed deps r = (ref, None)"
    using Cons.prems by (cases "reference_ParseNamed deps r") auto
  obtain ts terr r1 where at: "AllTags rc (registryClient nc) r = ((ts, terr), r1)"
    by (metis surj_pair)
  from Cons.prems have rest: "\<forall>r \<in> set repos. snd (reference_ParseNamed deps r) = None" by simp
  note ih = Cons.IH [OF rest]
  show ?case
  proof (cases terr)
    case (Some e)
    with pn at ih show ?thesis by simp
  next
    case None
    with pn at ih show ?thesis
      by (simp add: harvestTags_pullAll split: outcome.splits)
  qed
qed

lemma harvestRepos_all_valid:
  assumes "\<forall>r \<in> set repos. snd (reference_ParseNamed deps r) = None"
  shows "harvestRepos deps rc nc repos =
           (case pullRepos deps rc nc repos of
              Panicked \<Rightarrow> Panicked
            | Returned nc1 \<Rightarrow> Returned (None, nc1))"
  using harvestRepos_pullRepos [OF assms, of rc nc "[]"] by (simp split: outcome.splits)

lemma harvestRepos_first_invalid:
  assumes "\<forall>r \<in> set good. snd (reference_ParseNamed deps r) = None"
    and "snd (reference_ParseNamed deps bad) = Some perr"
  shows "harvestRepos deps rc nc (good @ bad # rest) =
           (case pullRepos deps rc nc good of
              Panicked \<Rightarrow> Panicked
            | Returned nc1 \<Rightarrow> Returned (Some (Errorf_for perr bad), nc1))"
proof -
  obtain ref where "reference_ParseNamed deps bad = (ref, Some perr)"
    using assms(2) by (cases "reference_ParseNamed deps bad") auto
  then have step: "harvestRepos deps rc nc1 (bad # rest) = Returned (Some (Errorf_for perr bad), nc1)"
    for nc1 by simp
  show ?thesis
    unfolding harvestRepos_pullRepos [OF assms(1), of rc nc "bad # rest"]
    by (simp only: step)
qed

lemma NameCache_db_same: "nc\<lparr>db := db nc\<rparr> = nc"
  by (cases nc) simp

lemma dbQueryOnSV_healthy:
  assumes "faults d = []"
  shows "dbQueryOnSV deps d sv =
     (let rows = selectOnSV d (RepoURL sv) (RepoOffset sv) (Version_String deps (Version sv))
      in if rows = [] then ((([], []), Some (NoImageNameFound sv)), d)
         else (((fst (last rows), map snd rows), None), d))"
  using assms by (simp add: dbQueryOnSV_def nextFault_healthy Let_def)

text \<open>
  Claim C7, as amended. Let the first lookup of \<^verbatim>\<open>GetImageName(sv)\<close> end with an error.
  If the error is not \<^verbatim>\<open>NoImageNameFound\<close>, it is returned and nothing else happens (no
  harvest, no registry call). If it is \<^verbatim>\<open>NoImageNameFound\<close>, the harvest runs on the
  location of \<^verbatim>\<open>sv\<close>:
  if the query for the repositories recorded for the location fails, which on a
  connection that answers means that none is recorded ("no repos found"),
  \<^verbatim>\<open>GetImageName\<close> returns that error: no registry call, no second lookup;
  if a recorded repository name is not a valid reference, the repositories before it are
  harvested and \<^verbatim>\<open>GetImageName\<close> returns the error for that name, without a second
  lookup;
  otherwise the harvest is \<open>pullRepos\<close> on the recorded repositories: for each, in order,
  one \<^verbatim>\<open>AllTags\<close> call and then \<^verbatim>\<open>GetSourceVersion\<close> for every tag that forms a valid
  reference, its result and error dropped, nothing pulled when \<^verbatim>\<open>AllTags\<close> fails. Then
  the lookup is made once more, on the cache the harvest left: a name found is returned,
  an error is returned, and when the connection answers and the name is still absent the
  error is \<^verbatim>\<open>NoImageNameFound\<close> with the requested \<^verbatim>\<open>SourceVersion\<close>.
\<close>

theorem GetImageName_harvest_on_miss:
  assumes first: "dbQueryOnSV deps (db nc) sv = (((cn0, ins0), Some e0), d0)"
  shows
   "(\<not> isNoImageNameFound e0 \<longrightarrow>
       GetImageName deps rc nc sv = Returned (([], Some e0), nc\<lparr>db := d0\<rparr>))
    \<and> (\<forall>repos e1 d1.
          isNoImageNameFound e0
        \<and> dbQueryOnSL d0 (SourceVersion_CanonicalName sv) = ((repos, Some e1), d1)
        \<longrightarrow> GetImageName deps rc nc sv = Returned (([], Some e1), nc\<lparr>db := d1\<rparr>)
          \<and> (faults d0 = [] \<longrightarrow> e1 = Errorf_no_repos_found (SourceVersion_CanonicalName sv)))
    \<and> (\<forall>good bad rest perr d1.
          isNoImageNameFound e0
        \<and> dbQueryOnSL d0 (SourceVersion_CanonicalName sv) = ((good @ bad # rest, None), d1)
        \<and> (\<forall>r \<in> set good. snd (reference_ParseNamed deps r) = None)
        \<and> snd (reference_ParseNamed deps bad) = Some perr
        \<longrightarrow> GetImageName deps rc nc sv =
              (case pullRepos deps rc (nc\<lparr>db := d1\<rparr>) good of
                 Panicked \<Rightarrow> Panicked
               | Returned nc1 \<Rightarrow> Returned (([], Some (Errorf_for perr bad)), nc1)))
    \<and> (\<forall>repos d1.
          isNoImageNameFound e0
        \<and> dbQueryOnSL d0 (SourceVersion_CanonicalName sv) = ((repos, None), d1)
        \<and> (\<forall>r \<in> set repos. snd (reference_ParseNamed deps r) = None)
        \<longrightarrow> GetImageName deps rc nc sv =
              (case pullRepos deps rc (nc\<lparr>db := d1\<rparr>) repos of
                 Panicked \<Rightarrow> Panicked
               | Returned nc1 \<Rightarrow>
                   (case dbQueryOnSV deps (db nc1) sv of
                      (((cn, ins), None), d2) \<Rightarrow> Returned ((cn, None), nc1\<lparr>db := d2\<rparr>)
                    | (((cn, ins), Some e2), d2) \<Rightarrow>
                        Returned (([], Some e2), nc1\<lparr>db := d2\<rparr>)))
          \<and> (\<forall>nc1. pullRepos deps rc (nc\<lparr>db := d1\<rparr>) repos = Returned nc1
                  \<and> faults (db nc1) = []
                  \<and> selectOnSV (db nc1) (RepoURL sv) (RepoOffset sv)
                       (Version_String deps (Version sv)) = []
                \<longrightarrow> GetImageName deps rc nc sv =
                      Returned (([], Some (NoImageNameFound sv)), nc1)))"
proof (intro conjI)
  show "\<not> isNoImageNameFound e0 \<longrightarrow>
       GetImageName deps rc nc sv = Returned (([], Some e0), nc\<lparr>db := d0\<rparr>)"
    using first by (simp add: GetImageName_def)
next
  show "\<forall>repos e1 d1.
          isNoImageNameFound e0
        \<and> dbQueryOnSL d0 (SourceVersion_CanonicalName sv) = ((repos, Some e1), d1)
        \<longrightarrow> GetImageName deps rc nc sv = Returned (([], Some e1), nc\<lparr>db := d1\<rparr>)
          \<and> (faults d0 = [] \<longrightarrow> e1 = Errorf_no_repos_found (SourceVersion_CanonicalName sv))"
  proof (intro allI impI)
    fix repos e1 d1
    assume h: "isNoImageNameFound e0
        \<and> dbQueryOnSL d0 (SourceVersion_CanonicalName sv) = ((repos, Some e1), d1)"
    with first have "GetImageName deps rc nc sv = Returned (([], Some e1), nc\<lparr>db := d1\<rparr>)"
      by (simp add: GetImageName_def harvest_def)
    moreover from h
    have "faults d0 = [] \<longrightarrow> e1 = Errorf_no_repos_found (SourceVersion_CanonicalName sv)"
      by (auto simp: dbQueryOnSL_def nextFault_healthy Let_def split: if_splits)
    ultimately show "GetImageName deps rc nc sv = Returned (([], Some e1), nc\<lparr>db := d1\<rparr>)
          \<and> (faults d0 = [] \<longrightarrow> e1 = Errorf_no_repos_found (SourceVersion_CanonicalName sv))"
      by simp
  qed
next
  show "\<forall>good bad rest perr d1.
          isNoImageNameFound e0
        \<and> dbQueryOnSL d0 (SourceVersion_CanonicalName sv) = ((good @ bad # rest, None), d1)
        \<and> (\<forall>r \<in> set good. snd (reference_ParseNamed deps r) = None)
        \<and> snd (reference_ParseNamed deps bad) = Some perr
        \<longrightarrow> GetImageName deps rc nc sv =
              (case pullRepos deps rc (nc\<lparr>db := d1\<rparr>) good of
                 Panicked \<Rightarrow> Panicked
               | Returned nc1 \<Rightarrow> Returned (([], Some (Errorf_for perr bad)), nc1))"
  proof (intro allI impI)
    fix good bad rest perr d1
    assume h: "isNoImageNameFound e0
        \<and> dbQueryOnSL d0 (SourceVersion_CanonicalName sv) = ((good @ bad # rest, None), d1)
        \<and> (\<forall>r \<in> set good. snd (reference_ParseNamed deps r) = None)
        \<and> snd (reference_ParseNamed deps bad) = Some perr"
    then have good: "\<forall>r \<in> set good. snd (reference_ParseNamed deps r) = None"
      and bad: "snd (reference_ParseNamed deps bad) = Some perr" by simp_all
    from h first harvestRepos_first_invalid [OF good bad, of rc "nc\<lparr>db := d1\<rparr>" rest]
    show "GetImageName deps rc nc sv =
              (case pullRepos deps rc (nc\<lparr>db := d1\<rparr>) good of
                 Panicked \<Rightarrow> Panicked
               | Returned nc1 \<Rightarrow> Returned (([], Some (Errorf_for perr bad)), nc1))"
      by (simp add: GetImageName_def harvest_def split: outcome.splits)
  qed
next
  show "\<forall>repos d1.
          isNoImageNameFound e0
        \<and> dbQueryOnSL d0 (SourceVersion_CanonicalName sv) = ((repos, None), d1)
        \<and> (\<forall>r \<in> set repos. snd (reference_ParseNamed deps r) = None)
        \<longrightarrow> GetImageName deps rc nc sv =
              (case pullRepos deps rc (nc\<lparr>db := d1\<rparr>) repos of
                 Panicked \<Rightarrow> Panicked
               | Returned nc1 \<Rightarrow>
                   (case dbQueryOnSV deps (db nc1) sv of
                      (((cn, ins), None), d2) \<Rightarrow> Returned ((cn, None), nc1\<lparr>db := d2\<rparr>)
                    | (((cn, ins), Some e2), d2) \<Rightarrow>
                        Returned (([], Some e2), nc1\<lparr>db := d2\<rparr>)))
          \<and> (\<forall>nc1. pullRepos deps rc (nc\<lparr>db := d1\<rparr>) repos = Returned nc1
                  \<and> faults (db nc1) = []
                  \<and> selectOnSV (db nc1) (RepoURL sv) (RepoOffset sv)
                       (Version_String deps (Version sv)) = []
                \<longrightarrow> GetImageName deps rc nc sv =
                      Returned (([], Some (NoImageNameFound sv)), nc1))"
  proof (intro allI impI)
    fix repos d1
    assume h: "isNoImageNameFound e0
        \<and> dbQueryOnSL d0 (SourceVersion_CanonicalName sv) = ((repos, None), d1)
        \<and> (\<forall>r \<in> set repos. snd (reference_ParseNamed deps r) = None)"
    then have valid: "\<forall>r \<in> set repos. snd (reference_ParseNamed deps r) = None" by simp
    from h first harvestRepos_all_valid [OF valid, of rc "nc\<lparr>db := d1\<rparr>"]
    have run: "GetImageName deps rc nc sv =
              (case pullRepos deps rc (nc\<lparr>db := d1\<rparr>) repos of
                 Panicked \<Rightarrow> Panicked
               | Returned nc1 \<Rightarrow>
                   (case dbQueryOnSV deps (db nc1) sv of
                      (((cn, ins), None), d2) \<Rightarrow> Returned ((cn, None), nc1\<lparr>db := d2\<rparr>)
                    | (((cn, ins), Some e2), d2) \<Rightarrow>
                        Returned (([], Some e2), nc1\<lparr>db := d2\<rparr>)))"
      by (simp add: GetImageName_def harvest_def split: outcome.splits prod.splits option.splits)
    have absent: "GetImageName deps rc nc sv = Returned (([], Some (NoImageNameFound sv)), nc1)"
      if a: "pullRepos deps rc (nc\<lparr>db := d1\<rparr>) repos = Returned nc1
                  \<and> faults (db nc1) = []
                  \<and> selectOnSV (db nc1) (RepoURL sv) (RepoOffset sv)
                       (Version_String deps (Version sv)) = []" for nc1
    proof -
      from a have "dbQueryOnSV deps (db nc1) sv
          = ((([], []), Some (NoImageNameFound sv)), db nc1)"
        by (simp add: dbQueryOnSV_healthy)
      with run a show ?thesis by (simp add: NameCache_db_same)
    qed
    from run absent
    show "GetImageName deps rc nc sv =
              (case pullRepos deps rc (nc\<lparr>db := d1\<rparr>) repos of
                 Panicked \<Rightarrow> Panicked
               | Returned nc1 \<Rightarrow>
                   (case dbQueryOnSV deps (db nc1) sv of
                      (((cn, ins), None), d2) \<Rightarrow> Returned ((cn, None), nc1\<lparr>db := d2\<rparr>)
                    | (((cn, ins), Some e2), d2) \<Rightarrow>
                        Returned (([], Some e2), nc1\<lparr>db := d2\<rparr>)))
          \<and> (\<forall>nc1. pullRepos deps rc (nc\<lparr>db := d1\<rparr>) repos = Returned nc1
                  \<and> faults (db nc1) = []
                  \<and> selectOnSV (db nc1) (RepoURL sv) (RepoOffset sv)
                       (Version_String deps (Version sv)) = []
                \<longrightarrow> GetImageName deps rc nc sv =
                      Returned (([], Some (NoImageNameFound sv)), nc1))"
      by blast
  qed
qed

theorem GetImageName_harvest_on_miss_witness:
  "GetImageName exDeps exRegistry exInsertedCache exOtherVersion
     = Returned (([], Some (NoImageNameFound exOtherVersion)),
         exInsertedCache\<lparr>registryClient := 2,
           registryCalls := [AllTagsCall ''repo/img'' [''1.0''] None,
                             GetImageMetadataCall ''repo/img:1.0'' ''e1''
                               (Some NotModifiedErr)]\<rparr>)
   \<and> GetImageName exDeps exRegistry
        (newNameCache\<lparr>db := newDatabase\<lparr>faults := [Some (External ''disk I/O error'')]\<rparr>\<rparr>)
        exOtherVersion
     = Returned (([], Some (External ''disk I/O error'')), newNameCache)"
proof -
  let ?nc1 = "exInsertedCache\<lparr>registryClient := 2,
                registryCalls := [AllTagsCall ''repo/img'' [''1.0''] None,
                                  GetImageMetadataCall ''repo/img:1.0'' ''e1''
                                    (Some NotModifiedErr)]\<rparr>"
  have q1: "dbQueryOnSV exDeps (db exInsertedCache) exOtherVersion
              = ((([], []), Some (NoImageNameFound exOtherVersion)), db exInsertedCache)"
    by (simp add: db_eval ex_eval exInsertedCache_def exOtherVersion_def)
  have miss: "isNoImageNameFound (NoImageNameFound exOtherVersion)" by simp
  have repos: "dbQueryOnSL (db exInsertedCache) (SourceVersion_CanonicalName exOtherVersion)
              = (([''repo/img''], None), db exInsertedCache)"
    by (simp add: SourceVersion_CanonicalName_def db_eval ex_eval exInsertedCache_def
        exOtherVersion_def)
  have valid: "\<forall>r \<in> set [''repo/img'']. snd (reference_ParseNamed exDeps r) = None"
    by (simp add: exDeps_def)
  have pull: "pullRepos exDeps exRegistry (exInsertedCache\<lparr>db := db exInsertedCache\<rparr>)
                [''repo/img''] = Returned ?nc1"
    by (simp add: taggedNames_def GetSourceVersion_def lookupCached_def makeSourceVersion_def
        db_eval ex_eval exInsertedCache_def)
  have healthy: "faults (db ?nc1) = []" by (simp add: exInsertedCache_def)
  have absent: "selectOnSV (db ?nc1) (RepoURL exOtherVersion) (RepoOffset exOtherVersion)
        (Version_String exDeps (Version exOtherVersion)) = []"
    by (simp add: db_eval ex_eval exInsertedCache_def exOtherVersion_def)
  have first: "GetImageName exDeps exRegistry exInsertedCache exOtherVersion
     = Returned (([], Some (NoImageNameFound exOtherVersion)), ?nc1)"
    using GetImageName_harvest_on_miss [OF q1, of exRegistry,
        THEN conjunct2, THEN conjunct2, THEN conjunct2, rule_format,
        OF conjI [OF miss conjI [OF repos valid]], THEN conjunct2, rule_format,
        OF conjI [OF pull conjI [OF healthy absent]]]
    by simp
  have q3: "dbQueryOnSV exDeps
              (db (newNameCache\<lparr>db := newDatabase\<lparr>faults := [Some (External ''disk I/O error'')]\<rparr>\<rparr>))
              exOtherVersion
              = ((([], []), Some (External ''disk I/O error'')), newDatabase)"
    by (simp add: db_eval ex_eval exOtherVersion_def)
  have second: "GetImageName exDeps exRegistry
        (newNameCache\<lparr>db := newDatabase\<lparr>faults := [Some (External ''disk I/O error'')]\<rparr>\<rparr>)
        exOtherVersion
     = Returned (([], Some (External ''disk I/O error'')), newNameCache)"
    using GetImageName_harvest_on_miss [OF q3, of exRegistry, THEN conjunct1]
    by (simp add: newNameCache_def)
  from first second show ?thesis by simp
qed

text \<open>
  The claim as it was stated (after \<^verbatim>\<open>NoImageNameFound\<close> the lookup is retried and a
  name still absent gives \<^verbatim>\<open>NoImageNameFound\<close>) fails on the empty cache: the first
  lookup gives \<^verbatim>\<open>NoImageNameFound\<close>, the harvest finds no repository recorded for the
  location and fails with "no repos found", and \<^verbatim>\<open>GetImageName\<close> returns that error.
\<close>

theorem GetImageName_no_repos_counterexample:
  "dbQueryOnSV exDeps (db newNameCache) (exSourceVersion ''sub'')
     = ((([], []), Some (NoImageNameFound (exSourceVersion ''sub''))), db newNameCache)
   \<and> GetImageName exDeps exRegistry newNameCache (exSourceVersion ''sub'')
     = Returned (([], Some (Errorf_no_repos_found
                              \<lparr>RepoURL = ''github.com/x/y'', RepoOffset = ''sub''\<rparr>)),
         newNameCache)"
  by (simp add: GetImageName_def harvest_def SourceVersion_CanonicalName_def db_eval ex_eval)

section \<open>Properties of \<^verbatim>\<open>Rectify\<close>\<close>
























end
